theory Spec2Isabelle
  imports Complex_Main
begin

section \<open>Python values, records and the external runtime\<close>

text \<open>
  The bulk loader of \<^verbatim>\<open>scripts/bulk_load_events.py\<close> works on event records that
  are Python dictionaries from field names to loosely typed cell values. The cell values
  modelled here are the scalars the file readers produce: \<^verbatim>\<open>None\<close>, booleans,
  integers, floats, strings and instants (\<^verbatim>\<open>pd.Timestamp\<close> and
  \<^verbatim>\<open>datetime\<close>, as nanoseconds since the epoch). A float is represented by
  the number it denotes, or one of the three special values; no float arithmetic is
  done on event data.
\<close>

datatype pyfloat = Finite rat | PosInf | NegInf | NaN

datatype pyval =
    PNone
  | PBool bool
  | PInt int
  | PFloat pyfloat
  | PStr string
  | PTimestamp int

datatype error =
    ValueError string
  | TypeError
  | KeyError string
  | IndexError
  | ZeroDivisionError
  | OverflowError
  | AttributeError
  | LibraryError string

type_synonym event = "string \<rightharpoonup> pyval"

type_synonym ref = nat

text \<open>
  Everything the loader calls outside the repository is a field of the runtime: the
  random uuid generator (the \<open>k\<close>-th draw, already rendered by \<^verbatim>\<open>str\<close>), the
  clock (the \<open>k\<close>-th reading), \<^verbatim>\<open>pd.to_datetime\<close>, the two conversions behind
  the builtin \<^verbatim>\<open>float\<close> that depend on parsing and rounding, \<^verbatim>\<open>str\<close> on
  non-strings, \<^verbatim>\<open>repr\<close> on strings, the file readers followed by \<^verbatim>\<open>df.to_dict('records')\<close>,
  \<^verbatim>\<open>pa.Table.from_pandas\<close>, \<^verbatim>\<open>datetime.fromtimestamp(..).isoformat()\<close>
  and the \<^verbatim>\<open>.2f\<close> float format.
\<close>

record runtime =
  uuid4_str :: "nat \<Rightarrow> string"
  utc_now :: "nat \<Rightarrow> int"
  to_datetime :: "pyval \<Rightarrow> error + pyval"
  str_to_float :: "string \<Rightarrow> pyfloat option"
  int_to_float :: "int \<Rightarrow> pyfloat option"
  str_of :: "pyval \<Rightarrow> string"
  repr_str :: "string \<Rightarrow> string"
  read_records :: "string \<Rightarrow> string \<Rightarrow> error + event list"
  from_pandas :: "pyval list list \<Rightarrow> error + pyval list list"
  fromtimestamp_iso :: "int \<Rightarrow> error + string"
  format_2f :: "pyfloat \<Rightarrow> string"

text \<open>
  The calls issued against the table catalog are recorded in a trace, so that the
  number and order of \<^verbatim>\<open>load_table\<close>, \<^verbatim>\<open>create_table\<close> and
  \<^verbatim>\<open>table.append\<close> calls can be stated.
\<close>

datatype 'h call =
    LoadTable string
  | CreateTable string
  | Append 'h "pyval list list"

text \<open>
  The state the program runs in: the heap of record dictionaries (every address holds
  a dictionary, unused ones the empty one), the allocation pointer, the number of
  uuids drawn and of clock readings taken, the state of the external catalog, and the
  trace of catalog calls.
\<close>

record ('c, 'h) world =
  heap :: "ref \<Rightarrow> event"
  next_ref :: ref
  uuids_drawn :: nat
  clock_reads :: nat
  catalog :: 'c
  trace :: "'h call list"

subsection \<open>Builtins\<close>

text \<open>Truth value of a cell, as \<^verbatim>\<open>not x\<close> tests it.\<close>

fun py_truthy :: "pyval \<Rightarrow> bool" where
  "py_truthy PNone = False"
| "py_truthy (PBool b) = b"
| "py_truthy (PInt i) = (i \<noteq> 0)"
| "py_truthy (PFloat f) = (f \<noteq> Finite 0)"
| "py_truthy (PStr s) = (s \<noteq> [])"
| "py_truthy (PTimestamp t) = True"

text \<open>\<^verbatim>\<open>d.get(k)\<close>: the value, or \<^verbatim>\<open>None\<close> for a missing key.\<close>

definition dict_get :: "event \<Rightarrow> string \<Rightarrow> pyval" where
  "dict_get d k = (case d k of None \<Rightarrow> PNone | Some v \<Rightarrow> v)"

text \<open>\<^verbatim>\<open>d.setdefault(k, v)\<close>: stores \<open>v\<close> only when the key is missing.\<close>

definition setdefault :: "event \<Rightarrow> string \<Rightarrow> pyval \<Rightarrow> event" where
  "setdefault d k v = (case d k of None \<Rightarrow> d(k \<mapsto> v) | Some _ \<Rightarrow> d)"

text \<open>
  The builtin \<^verbatim>\<open>float\<close>: the identity on floats, \<open>0.0\<close> or \<open>1.0\<close> on
  booleans, \<^verbatim>\<open>OverflowError\<close> on an integer out of range, \<^verbatim>\<open>ValueError\<close> on
  a string that is no number, \<^verbatim>\<open>TypeError\<close> on \<^verbatim>\<open>None\<close> and on instants.
\<close>

fun py_float :: "runtime \<Rightarrow> pyval \<Rightarrow> error + pyfloat" where
  "py_float rt PNone = Inl TypeError"
| "py_float rt (PBool b) = Inr (Finite (if b then 1 else 0))"
| "py_float rt (PInt i) =
     (case int_to_float rt i of None \<Rightarrow> Inl OverflowError | Some f \<Rightarrow> Inr f)"
| "py_float rt (PFloat f) = Inr f"
| "py_float rt (PStr s) =
     (case str_to_float rt s of
        None \<Rightarrow> Inl (ValueError (''could not convert string to float: '' @ repr_str rt s))
      | Some f \<Rightarrow> Inr f)"
| "py_float rt (PTimestamp t) = Inl TypeError"

text \<open>\<^verbatim>\<open>str(uuid.uuid4())\<close>: one draw from the generator.\<close>

definition draw_uuid :: "runtime \<Rightarrow> ('c, 'h) world \<Rightarrow> string \<times> ('c, 'h) world" where
  "draw_uuid rt w = (uuid4_str rt (uuids_drawn w), w\<lparr>uuids_drawn := Suc (uuids_drawn w)\<rparr>)"

fun is_str :: "pyval \<Rightarrow> bool" where
  "is_str (PStr s) = True"
| "is_str v = False"

fun is_instant :: "pyval \<Rightarrow> bool" where
  "is_instant (PTimestamp t) = True"
| "is_instant v = False"

section \<open>Record validation\<close>

text \<open>
  The timestamp block of \<^verbatim>\<open>validate_events\<close>: a string is parsed, any other value
  that is no instant is converted, an instant is kept, and a missing timestamp is
  the current time. The parser's exception leaves the dictionary as it is.
\<close>

definition normalize_timestamp ::
  "runtime \<Rightarrow> event \<Rightarrow> ('c, 'h) world \<Rightarrow> error option \<times> event \<times> ('c, 'h) world" where
  "normalize_timestamp rt ev w =
     (case ev ''timestamp'' of
        Some v \<Rightarrow>
          (if is_str v then
             (case to_datetime rt v of
                Inl e \<Rightarrow> (Some e, ev, w)
              | Inr t \<Rightarrow> (None, ev(''timestamp'' \<mapsto> t), w))
           else if \<not> is_instant v then
             (case to_datetime rt v of
                Inl e \<Rightarrow> (Some e, ev, w)
              | Inr t \<Rightarrow> (None, ev(''timestamp'' \<mapsto> t), w))
           else (None, ev, w))
      | None \<Rightarrow>
          (None, ev(''timestamp'' \<mapsto> PTimestamp (utc_now rt (clock_reads w))),
           w\<lparr>clock_reads := Suc (clock_reads w)\<rparr>))"

text \<open>
  The defaults block: \<^verbatim>\<open>setdefault\<close> evaluates its argument first, so a uuid is
  drawn for \<^verbatim>\<open>event_id\<close> and for \<^verbatim>\<open>session_id\<close> whether or not it is stored.
\<close>

definition set_defaults :: "runtime \<Rightarrow> event \<Rightarrow> ('c, 'h) world \<Rightarrow> event \<times> ('c, 'h) world" where
  "set_defaults rt ev w =
     (let (u1, w1) = draw_uuid rt w;
          ev1 = setdefault ev ''event_id'' (PStr u1);
          ev2 = setdefault ev1 ''event_type'' (PStr ''conversion'');
          ev3 = setdefault ev2 ''event_value'' (PFloat (Finite 0));
          ev4 = setdefault ev3 ''currency'' (PStr ''USD'');
          ev5 = setdefault ev4 ''user_id'' (PStr ''unknown'');
          (u2, w2) = draw_uuid rt w1;
          ev6 = setdefault ev5 ''session_id'' (PStr u2)
      in (ev6, w2))"

text \<open>
  The body of the loop of \<^verbatim>\<open>validate_events\<close> on one dictionary. The dictionary is
  mutated statement by statement, so the result carries the dictionary as it stands
  when the body ends, with the exception if one was raised.
\<close>

definition validate_event ::
  "runtime \<Rightarrow> string \<Rightarrow> event \<Rightarrow> ('c, 'h) world \<Rightarrow> error option \<times> event \<times> ('c, 'h) world" where
  "validate_event rt organization_id ev w =
     (let (ev1, w1) =
            (if \<not> py_truthy (dict_get ev ''id'')
             then (let (u, w') = draw_uuid rt w in (ev(''id'' \<mapsto> PStr u), w'))
             else (ev, w));
          ev2 = ev1(''organization_id'' \<mapsto> PStr organization_id)
      in case normalize_timestamp rt ev2 w1 of
           (Some e, ev3, w3) \<Rightarrow> (Some e, ev3, w3)
         | (None, ev3, w3) \<Rightarrow>
             (let (ev4, w4) = set_defaults rt ev3 w3
              in case ev4 ''event_value'' of
                   None \<Rightarrow> (Some (KeyError ''event_value''), ev4, w4)
                 | Some v \<Rightarrow>
                     (case py_float rt v of
                        Inl e \<Rightarrow> (Some e, ev4, w4)
                      | Inr f \<Rightarrow> (None, ev4(''event_value'' \<mapsto> PFloat f), w4))))"

text \<open>
  \<^verbatim>\<open>validate_events\<close>: the records are references into the heap, each dictionary is
  normalised in place and its reference appended to \<^verbatim>\<open>validated_events\<close>. An
  exception ends the loop; the mutations made so far stay in the heap.
\<close>

fun validate_loop ::
  "runtime \<Rightarrow> string \<Rightarrow> ref list \<Rightarrow> ref list \<Rightarrow> ('c, 'h) world \<Rightarrow>
   (error + ref list) \<times> ('c, 'h) world" where
  "validate_loop rt organization_id [] validated w = (Inr validated, w)"
| "validate_loop rt organization_id (r # rs) validated w =
     (case validate_event rt organization_id (heap w r) w of
        (err, ev', w') \<Rightarrow>
          (let w'' = w'\<lparr>heap := (heap w')(r := ev')\<rparr>
           in case err of
                Some e \<Rightarrow> (Inl e, w'')
              | None \<Rightarrow> validate_loop rt organization_id rs (validated @ [r]) w''))"

definition validate_events ::
  "runtime \<Rightarrow> ref list \<Rightarrow> string \<Rightarrow> ('c, 'h) world \<Rightarrow> (error + ref list) \<times> ('c, 'h) world" where
  "validate_events rt events organization_id w = validate_loop rt organization_id events [] w"

section \<open>Configuration\<close>

text \<open>
  \<^verbatim>\<open>_load_config\<close>. When the file exists, \<^verbatim>\<open>config\<close> is whatever
  \<^verbatim>\<open>yaml.safe_load\<close> returns: a mapping, \<^verbatim>\<open>None\<close> for an empty or
  comment-only file, a sequence, a string, or another scalar. The statements that follow
  are dictionary operations, and each raises on a value that does not support it.
\<close>

type_synonym config = "string \<rightharpoonup> pyval"

datatype yaml_doc =
    YMap config
  | YNone
  | YList "pyval list"
  | YStr string
  | YScalar

text \<open>\<^verbatim>\<open>config[key] = value\<close>: only a mapping takes a string key.\<close>

fun setitem :: "yaml_doc \<Rightarrow> string \<Rightarrow> pyval \<Rightarrow> error + yaml_doc" where
  "setitem (YMap c) k v = Inr (YMap (c(k \<mapsto> v)))"
| "setitem d k v = Inl TypeError"

text \<open>\<^verbatim>\<open>needle in haystack\<close> on strings: a contiguous substring.\<close>

fun is_substring :: "string \<Rightarrow> string \<Rightarrow> bool" where
  "is_substring needle [] = (needle = [])"
| "is_substring needle (c # cs) =
     (take (length needle) (c # cs) = needle \<or> is_substring needle cs)"

text \<open>
  \<^verbatim>\<open>f in config\<close>: a key of a mapping, an element of a sequence, a substring of a
  string; \<^verbatim>\<open>None\<close> and the other scalars are not iterable.
\<close>

fun contains :: "yaml_doc \<Rightarrow> string \<Rightarrow> error + bool" where
  "contains (YMap c) k = Inr (c k \<noteq> None)"
| "contains YNone k = Inl TypeError"
| "contains (YList xs) k = Inr (PStr k \<in> set xs)"
| "contains (YStr s) k = Inr (is_substring k s)"
| "contains YScalar k = Inl TypeError"

text \<open>\<^verbatim>\<open>config.setdefault(k, v)\<close>: a method of mappings only.\<close>

fun doc_setdefault :: "yaml_doc \<Rightarrow> string \<Rightarrow> pyval \<Rightarrow> error + yaml_doc" where
  "doc_setdefault (YMap c) k v = Inr (YMap (setdefault c k v))"
| "doc_setdefault d k v = Inl AttributeError"

definition env_mapping :: "(string \<times> string) list" where
  "env_mapping =
     [(''DATALAKE_CATALOG_URI'', ''catalog_uri''),
      (''DATALAKE_WAREHOUSE_NAME'', ''warehouse_name''),
      (''CLOUDFLARE_API_TOKEN'', ''api_token''),
      (''CLOUDFLARE_ACCOUNT_ID'', ''account_id''),
      (''R2_S3_API_URL'', ''s3_endpoint''),
      (''R2_BUCKET'', ''bucket_name'')]"

text \<open>
  The override loop. The environment maps variable names to strings, and
  \<^verbatim>\<open>if env_value := os.getenv(env_key)\<close> skips a variable that is unset or empty.
\<close>

fun apply_env ::
  "(string \<rightharpoonup> string) \<Rightarrow> (string \<times> string) list \<Rightarrow> yaml_doc \<Rightarrow> error + yaml_doc" where
  "apply_env env [] config = Inr config"
| "apply_env env ((env_key, config_key) # rest) config =
     (case env env_key of
        Some env_value \<Rightarrow>
          (if env_value \<noteq> [] then
             (case setitem config config_key (PStr env_value) of
                Inl e \<Rightarrow> Inl e
              | Inr config' \<Rightarrow> apply_env env rest config')
           else apply_env env rest config)
      | None \<Rightarrow> apply_env env rest config)"

definition required_fields :: "string list" where
  "required_fields = [''catalog_uri'', ''warehouse_name'', ''api_token'']"

text \<open>\<^verbatim>\<open>[f for f in required_fields if f not in config]\<close>.\<close>

fun missing_of :: "yaml_doc \<Rightarrow> string list \<Rightarrow> error + string list" where
  "missing_of config [] = Inr []"
| "missing_of config (f # fs) =
     (case contains config f of
        Inl e \<Rightarrow> Inl e
      | Inr present \<Rightarrow>
          (case missing_of config fs of
             Inl e \<Rightarrow> Inl e
           | Inr rest \<Rightarrow> Inr (if present then rest else f # rest)))"

text \<open>\<^verbatim>\<open>sep.join(xs)\<close>.\<close>

fun join :: "string \<Rightarrow> string list \<Rightarrow> string" where
  "join sep [] = []"
| "join sep [x] = x"
| "join sep (x # y # ys) = x @ sep @ join sep (y # ys)"

text \<open>
  The file is \<open>None\<close> when \<^verbatim>\<open>config_file.exists()\<close> is false, an error when
  \<^verbatim>\<open>open\<close> or \<^verbatim>\<open>yaml.safe_load\<close> raises, and the document loaded
  otherwise. The configuration returned is used as a dictionary by the rest of the
  program; only a mapping gets through the \<^verbatim>\<open>setdefault\<close> calls.
\<close>

definition load_config ::
  "(error + yaml_doc) option \<Rightarrow> (string \<rightharpoonup> string) \<Rightarrow> error + config" where
  "load_config config_file env =
     (case (case config_file of None \<Rightarrow> Inr (YMap Map.empty) | Some loaded \<Rightarrow> loaded) of
        Inl e \<Rightarrow> Inl e
      | Inr config0 \<Rightarrow>
          (case apply_env env env_mapping config0 of
             Inl e \<Rightarrow> Inl e
           | Inr config1 \<Rightarrow>
               (case missing_of config1 required_fields of
                  Inl e \<Rightarrow> Inl e
                | Inr missing_fields \<Rightarrow>
                    (if missing_fields \<noteq> [] then
                       Inl (ValueError
                              (''Missing required configuration: '' @ join '', '' missing_fields))
                     else
                       (case doc_setdefault config1 ''batch_size'' (PInt 10000) of
                          Inl e \<Rightarrow> Inl e
                        | Inr config2 \<Rightarrow>
                            (case doc_setdefault config2 ''namespace'' (PStr ''default'') of
                               Inl e \<Rightarrow> Inl e
                             | Inr config3 \<Rightarrow>
                                 (case doc_setdefault config3 ''table_name''
                                         (PStr ''conversion_events'') of
                                    Inl e \<Rightarrow> Inl e
                                  | Inr (YMap c) \<Rightarrow> Inr c
                                  | Inr other \<Rightarrow> Inl AttributeError)))))))"

section \<open>The table catalog\<close>

text \<open>
  The Iceberg catalog is an external service. Its operations are the fields of
  \<open>catalog_ops\<close>, over a catalog state \<open>'c\<close> and table handles \<open>'h\<close>:
  \<^verbatim>\<open>load_table\<close>, \<^verbatim>\<open>create_table\<close> and \<^verbatim>\<open>table.append\<close> may raise and may
  change the catalog; the snapshot accessors read the metadata a loaded table carries.
\<close>

datatype field_type = StringType | TimestampType | DoubleType

datatype transform = TruncateTransform nat | MonthTransform | DayTransform

type_synonym nested_field = "nat \<times> string \<times> field_type \<times> bool"

type_synonym partition_field = "nat \<times> nat \<times> transform \<times> string"

record snapshot =
  summary :: "string \<rightharpoonup> pyval"
  timestamp_ms :: int

record ('c, 'h) catalog_ops =
  load_table :: "string \<Rightarrow> 'c \<Rightarrow> (error + 'h) \<times> 'c"
  create_table ::
    "string \<Rightarrow> nested_field list \<Rightarrow> partition_field list \<Rightarrow> (string \<times> string) list \<Rightarrow>
     'c \<Rightarrow> (error + 'h) \<times> 'c"
  table_append :: "'h \<Rightarrow> pyval list list \<Rightarrow> 'c \<Rightarrow> error option \<times> 'c"
  current_snapshot :: "'h \<Rightarrow> snapshot option"
  snapshots :: "'h \<Rightarrow> snapshot list"

definition get_event_schema :: "nested_field list" where
  "get_event_schema =
     [(1, ''id'', StringType, True),
      (2, ''organization_id'', StringType, True),
      (3, ''event_id'', StringType, True),
      (4, ''timestamp'', TimestampType, True),
      (5, ''event_type'', StringType, True),
      (6, ''event_value'', DoubleType, True),
      (7, ''currency'', StringType, True),
      (8, ''user_id'', StringType, True),
      (9, ''session_id'', StringType, True),
      (10, ''utm_source'', StringType, False),
      (11, ''utm_medium'', StringType, False),
      (12, ''utm_campaign'', StringType, False),
      (13, ''device_type'', StringType, False),
      (14, ''browser'', StringType, False),
      (15, ''country'', StringType, False),
      (16, ''attribution_path'', StringType, False)]"

definition get_partition_spec :: "partition_field list" where
  "get_partition_spec =
     [(2, 1000, TruncateTransform 10, ''organization_bucket''),
      (4, 1001, MonthTransform, ''month''),
      (4, 1002, DayTransform, ''day'')]"

definition table_properties :: "(string \<times> string) list" where
  "table_properties =
     [(''write.format.default'', ''parquet''),
      (''write.parquet.compression-codec'', ''snappy''),
      (''write.metadata.compression-codec'', ''gzip''),
      (''write.summary.partition-limit'', ''100''),
      (''write.metadata.delete-after-commit.enabled'', ''true''),
      (''write.metadata.previous-versions-max'', ''10'')]"

text \<open>A value inside an f-string: a string as it is, anything else through \<^verbatim>\<open>str\<close>.\<close>

definition py_format :: "runtime \<Rightarrow> pyval \<Rightarrow> string" where
  "py_format rt v = (case v of PStr s \<Rightarrow> s | _ \<Rightarrow> str_of rt v)"

text \<open>
  \<^verbatim>\<open>f"{self.config['namespace']}.{self.config['table_name']}"\<close>; a missing key raises
  \<^verbatim>\<open>KeyError\<close>.
\<close>

definition table_identifier :: "runtime \<Rightarrow> config \<Rightarrow> error + string" where
  "table_identifier rt cfg =
     (case cfg ''namespace'' of
        None \<Rightarrow> Inl (KeyError ''namespace'')
      | Some ns \<Rightarrow>
          (case cfg ''table_name'' of
             None \<Rightarrow> Inl (KeyError ''table_name'')
           | Some tn \<Rightarrow> Inr (py_format rt ns @ ''.'' @ py_format rt tn)))"

text \<open>The three catalog calls, each recorded in the trace.\<close>

definition call_load_table ::
  "('c, 'h) catalog_ops \<Rightarrow> string \<Rightarrow> ('c, 'h) world \<Rightarrow> (error + 'h) \<times> ('c, 'h) world" where
  "call_load_table ops ident w =
     (case load_table ops ident (catalog w) of
        (res, c') \<Rightarrow> (res, w\<lparr>catalog := c', trace := trace w @ [LoadTable ident]\<rparr>))"

definition call_create_table ::
  "('c, 'h) catalog_ops \<Rightarrow> string \<Rightarrow> ('c, 'h) world \<Rightarrow> (error + 'h) \<times> ('c, 'h) world" where
  "call_create_table ops ident w =
     (case create_table ops ident get_event_schema get_partition_spec table_properties (catalog w) of
        (res, c') \<Rightarrow> (res, w\<lparr>catalog := c', trace := trace w @ [CreateTable ident]\<rparr>))"

definition call_append ::
  "('c, 'h) catalog_ops \<Rightarrow> 'h \<Rightarrow> pyval list list \<Rightarrow> ('c, 'h) world \<Rightarrow>
   error option \<times> ('c, 'h) world" where
  "call_append ops table batch w =
     (case table_append ops table batch (catalog w) of
        (res, c') \<Rightarrow> (res, w\<lparr>catalog := c', trace := trace w @ [Append table batch]\<rparr>))"

text \<open>
  \<^verbatim>\<open>create_or_get_table\<close>: the identifier is built before the \<^verbatim>\<open>try\<close>; any
  exception of \<^verbatim>\<open>load_table\<close> leads to \<^verbatim>\<open>create_table\<close>, whose exception
  propagates.
\<close>

definition create_or_get_table ::
  "runtime \<Rightarrow> ('c, 'h) catalog_ops \<Rightarrow> config \<Rightarrow> ('c, 'h) world \<Rightarrow>
   (error + 'h) \<times> ('c, 'h) world" where
  "create_or_get_table rt ops cfg w =
     (case table_identifier rt cfg of
        Inl e \<Rightarrow> (Inl e, w)
      | Inr table_id \<Rightarrow>
          (case call_load_table ops table_id w of
             (Inr table, w1) \<Rightarrow> (Inr table, w1)
           | (Inl e, w1) \<Rightarrow> call_create_table ops table_id w1))"

section \<open>Table statistics\<close>

text \<open>
  The numbers of the size loop: an integer, a boolean or a float compares with
  \<open>1024.0\<close> and divides; anything else raises \<^verbatim>\<open>TypeError\<close>. The value is the
  number denoted, so the rounding of a division is not modelled.
\<close>

fun num_value :: "pyval \<Rightarrow> pyfloat option" where
  "num_value (PInt i) = Some (Finite (of_int i))"
| "num_value (PBool b) = Some (Finite (if b then 1 else 0))"
| "num_value (PFloat f) = Some f"
| "num_value v = None"

fun float_lt_1024 :: "pyfloat \<Rightarrow> bool" where
  "float_lt_1024 (Finite q) = (q < 1024)"
| "float_lt_1024 NegInf = True"
| "float_lt_1024 f = False"

fun float_div_1024 :: "pyfloat \<Rightarrow> pyfloat" where
  "float_div_1024 (Finite q) = Finite (q / 1024)"
| "float_div_1024 f = f"

fun human_size :: "runtime \<Rightarrow> pyfloat \<Rightarrow> string list \<Rightarrow> string option" where
  "human_size rt size_bytes [] = None"
| "human_size rt size_bytes (unit # units) =
     (if float_lt_1024 size_bytes then Some (format_2f rt size_bytes @ '' '' @ unit)
      else human_size rt (float_div_1024 size_bytes) units)"

definition summary_get :: "snapshot \<Rightarrow> string \<Rightarrow> pyval" where
  "summary_get s k = (case summary s k of None \<Rightarrow> PInt 0 | Some v \<Rightarrow> v)"

text \<open>The body of the \<^verbatim>\<open>try\<close> of \<^verbatim>\<open>query_table_stats\<close>, after the table is loaded.\<close>

definition table_stats ::
  "runtime \<Rightarrow> ('c, 'h) catalog_ops \<Rightarrow> string \<Rightarrow> 'h \<Rightarrow> error + (string \<times> pyval) list" where
  "table_stats rt ops table_id table =
     (let snaps = snapshots ops table;
          cur = current_snapshot ops table;
          row_count = (case cur of Some s \<Rightarrow> summary_get s ''total-records'' | None \<Rightarrow> PInt 0);
          file_count = (case cur of Some s \<Rightarrow> summary_get s ''total-data-files'' | None \<Rightarrow> PInt 0);
          total_size_bytes =
            (case cur of Some s \<Rightarrow> summary_get s ''total-file-size-bytes'' | None \<Rightarrow> PInt 0)
      in case (case cur of
                 Some s \<Rightarrow>
                   (case fromtimestamp_iso rt (timestamp_ms s) of
                      Inl e \<Rightarrow> Inl e
                    | Inr stamp \<Rightarrow> Inr (PStr stamp))
               | None \<Rightarrow> Inr PNone) of
           Inl e \<Rightarrow> Inl e
         | Inr last_updated \<Rightarrow>
             (let stats =
                    [(''table_name'', PStr table_id),
                     (''row_count'', row_count),
                     (''file_count'', file_count),
                     (''total_size_bytes'', total_size_bytes),
                     (''snapshot_count'', PInt (int (length snaps))),
                     (''last_updated'', last_updated)]
              in case num_value total_size_bytes of
                   None \<Rightarrow> Inl TypeError
                 | Some size_bytes \<Rightarrow>
                     (case human_size rt size_bytes [''B'', ''KB'', ''MB'', ''GB'', ''TB''] of
                        Some s \<Rightarrow> Inr (stats @ [(''total_size'', PStr s)])
                      | None \<Rightarrow> Inr stats)))"

text \<open>
  \<^verbatim>\<open>query_table_stats\<close>: every exception inside the \<^verbatim>\<open>try\<close> is caught and the
  empty dictionary returned; the identifier is built outside it.
\<close>

definition query_table_stats ::
  "runtime \<Rightarrow> ('c, 'h) catalog_ops \<Rightarrow> config \<Rightarrow> ('c, 'h) world \<Rightarrow>
   (error + (string \<times> pyval) list) \<times> ('c, 'h) world" where
  "query_table_stats rt ops cfg w =
     (case table_identifier rt cfg of
        Inl e \<Rightarrow> (Inl e, w)
      | Inr table_id \<Rightarrow>
          (case call_load_table ops table_id w of
             (Inl e, w1) \<Rightarrow> (Inr [], w1)
           | (Inr table, w1) \<Rightarrow>
               (case table_stats rt ops table_id table of
                  Inl e \<Rightarrow> (Inr [], w1)
                | Inr stats \<Rightarrow> (Inr stats, w1))))"

section \<open>Bulk load\<close>

text \<open>\<^verbatim>\<open>df.to_dict('records')\<close> builds one fresh dictionary per row.\<close>

fun alloc_records :: "event list \<Rightarrow> ('c, 'h) world \<Rightarrow> ref list \<times> ('c, 'h) world" where
  "alloc_records [] w = ([], w)"
| "alloc_records (e # es) w =
     (case alloc_records es
             (w\<lparr>heap := (heap w)(next_ref w := e), next_ref := Suc (next_ref w)\<rparr>) of
        (rs, w') \<Rightarrow> (next_ref w # rs, w'))"

definition column_order :: "string list" where
  "column_order =
     [''id'', ''organization_id'', ''event_id'', ''timestamp'',
      ''event_type'', ''event_value'', ''currency'', ''user_id'',
      ''session_id'', ''utm_source'', ''utm_medium'', ''utm_campaign'',
      ''device_type'', ''browser'', ''country'', ''attribution_path'']"

text \<open>
  \<^verbatim>\<open>pd.DataFrame(validated_events)\<close> reindexed to \<^verbatim>\<open>column_order\<close>: one row per
  record; a column no record has is \<^verbatim>\<open>None\<close> throughout, and a key missing from one
  record of a column that exists is NaN. The dtype coercions of pandas and Arrow are part
  of \<open>from_pandas\<close>.
\<close>

definition dataframe_rows :: "event list \<Rightarrow> pyval list list" where
  "dataframe_rows recs =
     map (\<lambda>e. map (\<lambda>col.
                 if list_ex (\<lambda>e'. e' col \<noteq> None) recs
                 then (case e col of Some v \<Rightarrow> v | None \<Rightarrow> PFloat NaN)
                 else PNone) column_order) recs"

text \<open>
  The batch loop \<^verbatim>\<open>for i in range(0, total_rows, batch_size)\<close>, for a step that is
  positive; a negative step makes the range empty, which is the step \<open>0\<close> here (a zero
  \<^verbatim>\<open>batch_size\<close> has raised before the loop). \<^verbatim>\<open>arrow_table.slice(i, n)\<close> is
  \<open>take n (drop i arrow_table)\<close>. An exception of \<^verbatim>\<open>table.append\<close> ends the loop.
\<close>

function append_batches ::
  "('c, 'h) catalog_ops \<Rightarrow> 'h \<Rightarrow> pyval list list \<Rightarrow> nat \<Rightarrow> nat \<Rightarrow> nat \<Rightarrow> ('c, 'h) world \<Rightarrow>
   error option \<times> ('c, 'h) world" where
  "append_batches ops table arrow_table total_rows batch_size i w =
     (if batch_size = 0 \<or> total_rows \<le> i then (None, w)
      else (let batch_end = min (i + batch_size) total_rows;
                batch = take (batch_end - i) (drop i arrow_table)
            in case call_append ops table batch w of
                 (Some e, w') \<Rightarrow> (Some e, w')
               | (None, w') \<Rightarrow>
                   append_batches ops table arrow_table total_rows batch_size (i + batch_size) w'))"
  by pat_completeness auto
termination
  by (relation "measure (\<lambda>(ops, table, arrow_table, total_rows, batch_size, i, w). total_rows - i)")
     auto

text \<open>
  \<^verbatim>\<open>batch_size = self.config['batch_size']\<close> as the step of the loop: the integer
  division of \<^verbatim>\<open>num_batches\<close> raises on zero, and a value that is no integer raises
  there or in \<^verbatim>\<open>range\<close>.
\<close>

definition batch_step :: "config \<Rightarrow> error + int" where
  "batch_step cfg =
     (case cfg ''batch_size'' of
        None \<Rightarrow> Inl (KeyError ''batch_size'')
      | Some (PInt b) \<Rightarrow> (if b = 0 then Inl ZeroDivisionError else Inr b)
      | Some (PBool b) \<Rightarrow> (if b then Inr 1 else Inl ZeroDivisionError)
      | Some (PFloat f) \<Rightarrow> (if f = Finite 0 then Inl ZeroDivisionError else Inl TypeError)
      | Some _ \<Rightarrow> Inl TypeError)"

text \<open>
  \<^verbatim>\<open>bulk_load\<close>. The dry run logs the count and \<^verbatim>\<open>validated_events[0]\<close>, which
  raises \<^verbatim>\<open>IndexError\<close> on the empty list, and returns the count before any catalog
  call.
\<close>

definition bulk_load ::
  "runtime \<Rightarrow> ('c, 'h) catalog_ops \<Rightarrow> config \<Rightarrow> string \<Rightarrow> string \<Rightarrow> string \<Rightarrow> bool \<Rightarrow>
   ('c, 'h) world \<Rightarrow> (error + nat) \<times> ('c, 'h) world" where
  "bulk_load rt ops cfg input_file organization_id file_format dry_run w =
     (case read_records rt input_file file_format of
        Inl e \<Rightarrow> (Inl e, w)
      | Inr records \<Rightarrow>
          (case alloc_records records w of
             (events, w0) \<Rightarrow>
               (case validate_events rt events organization_id w0 of
                  (Inl e, w1) \<Rightarrow> (Inl e, w1)
                | (Inr validated_events, w1) \<Rightarrow>
                    (if dry_run then
                       (case validated_events of
                          [] \<Rightarrow> (Inl IndexError, w1)
                        | _ # _ \<Rightarrow> (Inr (length validated_events), w1))
                     else
                       (case create_or_get_table rt ops cfg w1 of
                          (Inl e, w2) \<Rightarrow> (Inl e, w2)
                        | (Inr table, w2) \<Rightarrow>
                            (case from_pandas rt
                                    (dataframe_rows (map (heap w2) validated_events)) of
                               Inl e \<Rightarrow> (Inl e, w2)
                             | Inr arrow_table \<Rightarrow>
                                 (case batch_step cfg of
                                    Inl e \<Rightarrow> (Inl e, w2)
                                  | Inr batch_size \<Rightarrow>
                                      (let total_rows = length validated_events
                                       in case append_batches ops table arrow_table total_rows
                                                 (nat batch_size) 0 w2 of
                                            (Some e, w3) \<Rightarrow> (Inl e, w3)
                                          | (None, w3) \<Rightarrow> (Inr total_rows, w3)))))))))"


section \<open>Concrete instances\<close>

text \<open>
  A runtime and a heap on which the definitions are evaluated. The uuid generator
  counts. The file reader knows three files: \<^verbatim>\<open>events.csv\<close> with three rows, whose
  \<^verbatim>\<open>event_value\<close> column \<^verbatim>\<open>pd.read_csv\<close> reads as floats and whose timestamps
  it leaves as strings; \<^verbatim>\<open>bad.json\<close>, one record whose
  \<^verbatim>\<open>event_value\<close> is the string \<^verbatim>\<open>abc\<close>; and \<^verbatim>\<open>empty.csv\<close>, a header with no row. The
  parser accepts one ISO string and rejects every other string, as
  \<^verbatim>\<open>pd.to_datetime\<close> rejects a string that is no date, and the float parser knows
  two numerals.
\<close>

definition test_records :: "event list" where
  "test_records =
     [[''id'' \<mapsto> PStr ''e-1'', ''event_value'' \<mapsto> PFloat (Finite (39 / 2)),
       ''timestamp'' \<mapsto> PStr ''2024-01-15T10:30:00''],
      [''id'' \<mapsto> PStr ''e-2'', ''event_value'' \<mapsto> PFloat (Finite 5),
       ''timestamp'' \<mapsto> PStr ''2024-01-15T10:30:00''],
      [''id'' \<mapsto> PStr ''e-3'', ''event_value'' \<mapsto> PFloat (Finite 0),
       ''timestamp'' \<mapsto> PStr ''2024-01-15T10:30:00'']]"

definition test_runtime :: runtime where
  "test_runtime = \<lparr>
     uuid4_str = (\<lambda>k. ''uuid-'' @ replicate (Suc k) (CHR ''u'')),
     utc_now = (\<lambda>k. 1700000000 + int k),
     to_datetime = (\<lambda>v. case v of
         PStr s \<Rightarrow> (if s = ''2024-01-15T10:30:00'' then Inr (PTimestamp 1705314600)
                    else Inl (ValueError (''Unknown datetime string format: '' @ s)))
       | PInt n \<Rightarrow> Inr (PTimestamp n)
       | PNone \<Rightarrow> Inr PNone
       | _ \<Rightarrow> Inl TypeError),
     str_to_float = (\<lambda>s. if s = ''19.99'' then Some (Finite (1999 / 100))
                         else if s = ''0'' then Some (Finite 0) else None),
     int_to_float = (\<lambda>i. Some (Finite (of_int i))),
     str_of = (\<lambda>v. ''?''),
     repr_str = (\<lambda>s. [CHR 0x27] @ s @ [CHR 0x27]),
     read_records = (\<lambda>path fmt.
        if path = ''events.csv'' then Inr test_records
        else if path = ''bad.json'' then Inr [[''event_value'' \<mapsto> PStr ''abc'']]
        else if path = ''empty.csv'' then Inr []
        else Inl (LibraryError ''File not found'')),
     from_pandas = Inr,
     fromtimestamp_iso = (\<lambda>t. Inr ''1970-01-01T00:00:00''),
     format_2f = (\<lambda>f. ''0.00'')
   \<rparr>"

definition test_world :: "(unit, unit) world" where
  "test_world = \<lparr>
     heap = (\<lambda>r. Map.empty)
       (0 := [''id'' \<mapsto> PStr ''e-1'', ''organization_id'' \<mapsto> PStr ''other-org'',
              ''event_value'' \<mapsto> PStr ''19.99''],
        1 := [''timestamp'' \<mapsto> PStr ''2024-01-15T10:30:00''],
        2 := [''id'' \<mapsto> PInt 0, ''event_value'' \<mapsto> PInt 5],
        3 := [''timestamp'' \<mapsto> PStr ''not-a-date'', ''event_value'' \<mapsto> PFloat (Finite 1)],
        4 := [''event_value'' \<mapsto> PStr ''n/a'']),
     next_ref = 5, uuids_drawn = 0, clock_reads = 0, catalog = (), trace = [] \<rparr>"

definition test_config_file :: config where
  "test_config_file =
     [''catalog_uri'' \<mapsto> PStr ''https://catalog.example/r2'',
      ''warehouse_name'' \<mapsto> PStr ''wh'',
      ''api_token'' \<mapsto> PStr ''file-token'',
      ''namespace'' \<mapsto> PStr ''prod'']"

definition test_env :: "string \<rightharpoonup> string" where
  "test_env = [''CLOUDFLARE_API_TOKEN'' \<mapsto> ''env-token'', ''R2_BUCKET'' \<mapsto> '''']"

definition test_env_full :: "string \<rightharpoonup> string" where
  "test_env_full =
     [''DATALAKE_CATALOG_URI'' \<mapsto> ''https://catalog.example/r2'',
      ''DATALAKE_WAREHOUSE_NAME'' \<mapsto> ''wh'',
      ''CLOUDFLARE_API_TOKEN'' \<mapsto> ''env-token'']"


text \<open>
  An in-memory catalog: the tables by identifier, each with the batches appended to it.
  A handle is the identifier with the batches the table held when it was loaded; the
  table has a current snapshot once a batch has been appended.
\<close>

type_synonym mem_catalog = "(string \<times> pyval list list list) list"

type_synonym mem_table = "string \<times> pyval list list list"

definition mem_snapshot :: "pyval list list list \<Rightarrow> snapshot" where
  "mem_snapshot batches =
     \<lparr>summary = [''total-records'' \<mapsto> PInt (int (length (concat batches))),
                 ''total-data-files'' \<mapsto> PInt (int (length batches))],
      timestamp_ms = int (length batches)\<rparr>"

definition mem_ops :: "(mem_catalog, mem_table) catalog_ops" where
  "mem_ops = \<lparr>
     load_table = (\<lambda>ident c.
        case map_of c ident of
          None \<Rightarrow> (Inl (LibraryError ''NoSuchTableError''), c)
        | Some batches \<Rightarrow> (Inr (ident, batches), c)),
     create_table = (\<lambda>ident fields spec props c.
        case map_of c ident of
          Some batches \<Rightarrow> (Inl (LibraryError ''TableAlreadyExistsError''), c)
        | None \<Rightarrow> (Inr (ident, []), c @ [(ident, [])])),
     table_append = (\<lambda>table batch c.
        (None, map (\<lambda>(n, batches). if n = fst table then (n, batches @ [batch]) else (n, batches)) c)),
     current_snapshot = (\<lambda>table.
        if snd table = [] then None else Some (mem_snapshot (snd table))),
     snapshots = (\<lambda>table. map (\<lambda>k. mem_snapshot (take (Suc k) (snd table))) [0..<length (snd table)])
   \<rparr>"

definition test_config :: config where
  "test_config =
     [''catalog_uri'' \<mapsto> PStr ''https://catalog.example/r2'',
      ''warehouse_name'' \<mapsto> PStr ''wh'',
      ''api_token'' \<mapsto> PStr ''token'',
      ''batch_size'' \<mapsto> PInt 2,
      ''namespace'' \<mapsto> PStr ''default'',
      ''table_name'' \<mapsto> PStr ''conversion_events'']"

definition fresh_world :: "mem_catalog \<Rightarrow> (mem_catalog, mem_table) world" where
  "fresh_world c =
     \<lparr>heap = (\<lambda>r. Map.empty), next_ref = 0, uuids_drawn = 0, clock_reads = 0,
      catalog = c, trace = []\<rparr>"



section \<open>Properties of validation\<close>

subsection \<open>What validation leaves alone\<close>

lemma draw_uuid_frame:
  "draw_uuid rt w = (u, w') \<Longrightarrow>
     heap w' = heap w \<and> next_ref w' = next_ref w \<and> catalog w' = catalog w \<and> trace w' = trace w"
  by (auto simp: draw_uuid_def)

lemma normalize_timestamp_frame:
  "normalize_timestamp rt ev w = (err, ev', w') \<Longrightarrow>
     heap w' = heap w \<and> next_ref w' = next_ref w \<and> catalog w' = catalog w \<and> trace w' = trace w"
  by (auto simp: normalize_timestamp_def split: option.splits if_splits sum.splits)

lemma set_defaults_frame:
  "set_defaults rt ev w = (ev', w') \<Longrightarrow>
     heap w' = heap w \<and> next_ref w' = next_ref w \<and> catalog w' = catalog w \<and> trace w' = trace w"
  by (auto simp: set_defaults_def draw_uuid_def Let_def split: prod.splits)

lemma validate_event_frame:
  "validate_event rt org ev w = (err, ev', w') \<Longrightarrow>
     heap w' = heap w \<and> next_ref w' = next_ref w \<and> catalog w' = catalog w \<and> trace w' = trace w"
  unfolding validate_event_def Let_def
  by (auto split: prod.splits option.splits if_splits sum.splits
      dest!: draw_uuid_frame normalize_timestamp_frame set_defaults_frame)

lemma validate_loop_result:
  "validate_loop rt org rs acc w = (Inr vs, w') \<Longrightarrow> vs = acc @ rs"
proof (induction rs arbitrary: acc w)
  case Nil
  then show ?case by simp
next
  case (Cons r rs)
  obtain err ev1 w1 where ve: "validate_event rt org (heap w r) w = (err, ev1, w1)"
    by (cases "validate_event rt org (heap w r) w") auto
  from Cons.prems ve have none: "err = None"
    by (cases err) auto
  with Cons.prems ve have
    "validate_loop rt org rs (acc @ [r]) (w1\<lparr>heap := (heap w1)(r := ev1)\<rparr>) = (Inr vs, w')"
    by simp
  from Cons.IH [OF this] show ?case by simp
qed

lemma validate_loop_frame:
  "validate_loop rt org rs acc w = (res, w') \<Longrightarrow>
     next_ref w' = next_ref w \<and> catalog w' = catalog w \<and> trace w' = trace w \<and>
     (\<forall>r. r \<notin> set rs \<longrightarrow> heap w' r = heap w r)"
proof (induction rs arbitrary: acc w)
  case Nil
  then show ?case by simp
next
  case (Cons r rs)
  obtain err ev1 w1 where ve: "validate_event rt org (heap w r) w = (err, ev1, w1)"
    by (cases "validate_event rt org (heap w r) w") auto
  note fr = validate_event_frame [OF ve]
  show ?case
  proof (cases err)
    case None
    with Cons.prems ve have
      "validate_loop rt org rs (acc @ [r]) (w1\<lparr>heap := (heap w1)(r := ev1)\<rparr>) = (res, w')"
      by simp
    from Cons.IH [OF this] fr show ?thesis by auto
  next
    case (Some e)
    with Cons.prems ve fr show ?thesis by auto
  qed
qed

lemma validate_loop_post:
  assumes step: "\<And>ev w ev' w'. validate_event rt org ev (w :: ('c,'h) world) = (None, ev', w') \<Longrightarrow> Q ev'"
  shows "validate_loop rt org rs acc (w :: ('c,'h) world) = (Inr vs, w') \<Longrightarrow> \<forall>r\<in>set rs. Q (heap w' r)"
proof (induction rs arbitrary: acc w)
  case Nil
  then show ?case by simp
next
  case (Cons r rs)
  obtain err ev1 w1 where ve: "validate_event rt org (heap w r) w = (err, ev1, w1)"
    by (cases "validate_event rt org (heap w r) w") auto
  from Cons.prems ve have none: "err = None"
    by (cases err) auto
  let ?w = "w1\<lparr>heap := (heap w1)(r := ev1)\<rparr>"
  from Cons.prems ve none have rest: "validate_loop rt org rs (acc @ [r]) ?w = (Inr vs, w')"
    by simp
  have q1: "Q ev1" using step ve none by blast
  have "Q (heap w' x)" if "x \<in> set (r # rs)" for x
  proof (cases "x \<in> set rs")
    case True
    with Cons.IH [OF rest] show ?thesis by blast
  next
    case False
    with that have "x = r" by simp
    moreover from validate_loop_frame [OF rest] False have "heap w' x = heap ?w x" by blast
    ultimately show ?thesis using q1 by simp
  qed
  then show ?case by blast
qed

lemma validate_loop_rel:
  assumes step: "\<And>ev w ev' w'. validate_event rt org ev (w :: ('c,'h) world) = (None, ev', w') \<Longrightarrow> R ev ev'"
    and trans: "\<And>a b c. R a b \<Longrightarrow> R b c \<Longrightarrow> R a c"
  shows "validate_loop rt org rs acc (w :: ('c,'h) world) = (Inr vs, w') \<Longrightarrow>
         \<forall>r\<in>set rs. R (heap w r) (heap w' r)"
proof (induction rs arbitrary: acc w)
  case Nil
  then show ?case by simp
next
  case (Cons r rs)
  obtain err ev1 w1 where ve: "validate_event rt org (heap w r) w = (err, ev1, w1)"
    by (cases "validate_event rt org (heap w r) w") auto
  from Cons.prems ve have none: "err = None"
    by (cases err) auto
  let ?w = "w1\<lparr>heap := (heap w1)(r := ev1)\<rparr>"
  from Cons.prems ve none have rest: "validate_loop rt org rs (acc @ [r]) ?w = (Inr vs, w')"
    by simp
  have r1: "R (heap w r) ev1" using step ve none by blast
  have hp: "heap w1 = heap w" using validate_event_frame [OF ve] by simp
  have "R (heap w x) (heap w' x)" if "x \<in> set (r # rs)" for x
  proof (cases "x \<in> set rs")
    case True
    with Cons.IH [OF rest] have ih: "R (heap ?w x) (heap w' x)" by blast
    show ?thesis
    proof (cases "x = r")
      case True
      with ih have "R ev1 (heap w' r)" by simp
      with r1 True show ?thesis using trans by blast
    next
      case False
      with ih hp show ?thesis by simp
    qed
  next
    case False
    with that have "x = r" by simp
    moreover from validate_loop_frame [OF rest] False have "heap w' x = heap ?w x" by blast
    ultimately show ?thesis using r1 by simp
  qed
  then show ?case by blast
qed

subsection \<open>The fields of a validated record\<close>

lemma setdefault_apply:
  "setdefault d k v k' = (if k' = k then (case d k of None \<Rightarrow> Some v | Some x \<Rightarrow> Some x) else d k')"
  by (simp add: setdefault_def split: option.splits)

lemma py_float_PFloat: "py_float rt (PFloat f) = Inr f"
  by simp

lemma normalize_timestamp_other:
  "normalize_timestamp rt ev w = (err, ev', w') \<Longrightarrow> k \<noteq> ''timestamp'' \<Longrightarrow> ev' k = ev k"
  by (auto simp: normalize_timestamp_def split: option.splits if_splits sum.splits)

lemma validate_event_org:
  "validate_event rt org ev w = (err, ev', w') \<Longrightarrow> ev' ''organization_id'' = Some (PStr org)"
  unfolding validate_event_def Let_def set_defaults_def
  by (auto simp: setdefault_apply split: prod.splits option.splits if_splits sum.splits
      dest!: normalize_timestamp_other [where k = "''organization_id''"])

lemma validate_event_fields:
  assumes "validate_event rt org ev w = (None, ev', w')"
  shows "\<exists>k1 k2 k3 f.
    ev' ''id'' = (if py_truthy (dict_get ev ''id'') then ev ''id'' else Some (PStr (uuid4_str rt k1))) \<and>
    ev' ''event_id'' = (case ev ''event_id'' of None \<Rightarrow> Some (PStr (uuid4_str rt k2)) | Some v \<Rightarrow> Some v) \<and>
    ev' ''event_type'' = (case ev ''event_type'' of None \<Rightarrow> Some (PStr ''conversion'') | Some v \<Rightarrow> Some v) \<and>
    ev' ''currency'' = (case ev ''currency'' of None \<Rightarrow> Some (PStr ''USD'') | Some v \<Rightarrow> Some v) \<and>
    ev' ''user_id'' = (case ev ''user_id'' of None \<Rightarrow> Some (PStr ''unknown'') | Some v \<Rightarrow> Some v) \<and>
    ev' ''session_id'' = (case ev ''session_id'' of None \<Rightarrow> Some (PStr (uuid4_str rt k3)) | Some v \<Rightarrow> Some v) \<and>
    ev' ''event_value'' = Some (PFloat f) \<and>
    py_float rt (case ev ''event_value'' of None \<Rightarrow> PFloat (Finite 0) | Some v \<Rightarrow> v) = Inr f"
proof -
  obtain ev1 w1 where id_part:
    "(if \<not> py_truthy (dict_get ev ''id'')
      then (let (u, w') = draw_uuid rt w in (ev(''id'' \<mapsto> PStr u), w'))
      else (ev, w)) = (ev1, w1)"
    by (metis surj_pair)
  define ev2 where "ev2 = ev1(''organization_id'' \<mapsto> PStr org)"
  obtain e3 ev3 w3 where ts: "normalize_timestamp rt ev2 w1 = (e3, ev3, w3)"
    by (metis surj_pair)
  obtain ev4 w4 where sd: "set_defaults rt ev3 w3 = (ev4, w4)"
    by (metis surj_pair)
  from assms id_part ts sd have e3: "e3 = None"
    unfolding validate_event_def Let_def ev2_def by (cases e3) auto
  from assms id_part ts sd e3 obtain v f where
    v: "ev4 ''event_value'' = Some v" and f: "py_float rt v = Inr f"
    and ev': "ev' = ev4(''event_value'' \<mapsto> PFloat f)"
    unfolding validate_event_def Let_def ev2_def
    by (auto split: option.splits sum.splits)
  have ev1_id: "ev1 ''id'' = (if py_truthy (dict_get ev ''id'') then ev ''id''
                  else Some (PStr (uuid4_str rt (uuids_drawn w))))"
    and ev1_other: "\<And>k. k \<noteq> ''id'' \<Longrightarrow> ev1 k = ev k"
    using id_part by (auto simp: draw_uuid_def split: if_splits)
  have ev3_k: "ev3 k = ev1 k" if "k \<noteq> ''timestamp''" "k \<noteq> ''organization_id''" for k
    using normalize_timestamp_other [OF ts that(1)] that(2) by (simp add: ev2_def)
  have ev4_eq: "ev4 = setdefault (setdefault (setdefault (setdefault (setdefault (setdefault ev3
        ''event_id'' (PStr (uuid4_str rt (uuids_drawn w3))))
        ''event_type'' (PStr ''conversion''))
        ''event_value'' (PFloat (Finite 0)))
        ''currency'' (PStr ''USD''))
        ''user_id'' (PStr ''unknown''))
        ''session_id'' (PStr (uuid4_str rt (Suc (uuids_drawn w3))))"
    using sd by (simp add: set_defaults_def draw_uuid_def Let_def)
  have "ev' ''id'' = (if py_truthy (dict_get ev ''id'') then ev ''id''
                  else Some (PStr (uuid4_str rt (uuids_drawn w))))"
    by (simp add: ev' ev4_eq setdefault_apply ev3_k ev1_id)
  moreover have "ev' ''event_id'' = (case ev ''event_id'' of
        None \<Rightarrow> Some (PStr (uuid4_str rt (uuids_drawn w3))) | Some v \<Rightarrow> Some v)"
    by (simp add: ev' ev4_eq setdefault_apply ev3_k ev1_other)
  moreover have "ev' ''event_type'' = (case ev ''event_type'' of
        None \<Rightarrow> Some (PStr ''conversion'') | Some v \<Rightarrow> Some v)"
    by (simp add: ev' ev4_eq setdefault_apply ev3_k ev1_other)
  moreover have "ev' ''currency'' = (case ev ''currency'' of
        None \<Rightarrow> Some (PStr ''USD'') | Some v \<Rightarrow> Some v)"
    by (simp add: ev' ev4_eq setdefault_apply ev3_k ev1_other)
  moreover have "ev' ''user_id'' = (case ev ''user_id'' of
        None \<Rightarrow> Some (PStr ''unknown'') | Some v \<Rightarrow> Some v)"
    by (simp add: ev' ev4_eq setdefault_apply ev3_k ev1_other)
  moreover have "ev' ''session_id'' = (case ev ''session_id'' of
        None \<Rightarrow> Some (PStr (uuid4_str rt (Suc (uuids_drawn w3)))) | Some v \<Rightarrow> Some v)"
    by (simp add: ev' ev4_eq setdefault_apply ev3_k ev1_other)
  moreover have "ev' ''event_value'' = Some (PFloat f)"
    by (simp add: ev')
  moreover have "py_float rt (case ev ''event_value'' of None \<Rightarrow> PFloat (Finite 0) | Some v \<Rightarrow> v) = Inr f"
  proof -
    have "ev4 ''event_value'' = (case ev ''event_value'' of None \<Rightarrow> Some (PFloat (Finite 0)) | Some v \<Rightarrow> Some v)"
      by (simp add: ev4_eq setdefault_apply ev3_k ev1_other)
    with v f show ?thesis by (cases "ev ''event_value''") auto
  qed
  ultimately show ?thesis by blast
qed

lemma validate_loop_default:
  assumes step: "\<And>ev (w :: ('c,'h) world) ev' w'. validate_event rt org ev w = (None, ev', w') \<Longrightarrow>
        (ev key = None \<longrightarrow> P (ev' key)) \<and> (ev key \<noteq> None \<longrightarrow> ev' key = ev key)"
    and run: "validate_loop rt org rs acc (w :: ('c,'h) world) = (Inr vs, w')"
  shows "\<forall>r\<in>set rs. (heap w r key = None \<longrightarrow> P (heap w' r key)) \<and>
                     (heap w r key \<noteq> None \<longrightarrow> heap w' r key = heap w r key)"
proof (rule validate_loop_rel [where R = "\<lambda>a b. (a key = None \<longrightarrow> P (b key)) \<and> (a key \<noteq> None \<longrightarrow> b key = a key)", OF _ _ run])
  fix ev ev' and w w' :: "('c,'h) world"
  assume "validate_event rt org ev w = (None, ev', w')"
  then show "(ev key = None \<longrightarrow> P (ev' key)) \<and> (ev key \<noteq> None \<longrightarrow> ev' key = ev key)"
    by (rule step)
next
  fix a b c :: event
  assume ab: "(a key = None \<longrightarrow> P (b key)) \<and> (a key \<noteq> None \<longrightarrow> b key = a key)"
    and bc: "(b key = None \<longrightarrow> P (c key)) \<and> (b key \<noteq> None \<longrightarrow> c key = b key)"
  show "(a key = None \<longrightarrow> P (c key)) \<and> (a key \<noteq> None \<longrightarrow> c key = a key)"
  proof (cases "b key = None")
    case True
    with ab bc show ?thesis by metis
  next
    case False
    with ab bc show ?thesis by metis
  qed
qed

lemma validate_loop_id:
  assumes run: "validate_loop rt org rs acc (w :: ('c,'h) world) = (Inr vs, w')"
  shows "\<forall>r\<in>set rs.
     (py_truthy (dict_get (heap w r) ''id'') \<longrightarrow> heap w' r ''id'' = heap w r ''id'') \<and>
     (\<not> py_truthy (dict_get (heap w r) ''id'') \<longrightarrow>
        (\<exists>k. heap w' r ''id'' = Some (PStr (uuid4_str rt k))))"
proof (rule validate_loop_rel [where R = "\<lambda>a b.
     (py_truthy (dict_get a ''id'') \<longrightarrow> b ''id'' = a ''id'') \<and>
     (\<not> py_truthy (dict_get a ''id'') \<longrightarrow> (\<exists>k. b ''id'' = Some (PStr (uuid4_str rt k))))", OF _ _ run])
  fix ev ev' and w w' :: "('c,'h) world"
  assume "validate_event rt org ev w = (None, ev', w')"
  from validate_event_fields [OF this]
  show "(py_truthy (dict_get ev ''id'') \<longrightarrow> ev' ''id'' = ev ''id'') \<and>
     (\<not> py_truthy (dict_get ev ''id'') \<longrightarrow> (\<exists>k. ev' ''id'' = Some (PStr (uuid4_str rt k))))"
    by (cases "py_truthy (dict_get ev ''id'')") auto
next
  fix a b c :: event
  assume ab: "(py_truthy (dict_get a ''id'') \<longrightarrow> b ''id'' = a ''id'') \<and>
     (\<not> py_truthy (dict_get a ''id'') \<longrightarrow> (\<exists>k. b ''id'' = Some (PStr (uuid4_str rt k))))"
    and bc: "(py_truthy (dict_get b ''id'') \<longrightarrow> c ''id'' = b ''id'') \<and>
     (\<not> py_truthy (dict_get b ''id'') \<longrightarrow> (\<exists>k. c ''id'' = Some (PStr (uuid4_str rt k))))"
  show "(py_truthy (dict_get a ''id'') \<longrightarrow> c ''id'' = a ''id'') \<and>
     (\<not> py_truthy (dict_get a ''id'') \<longrightarrow> (\<exists>k. c ''id'' = Some (PStr (uuid4_str rt k))))"
  proof (cases "py_truthy (dict_get a ''id'')")
    case True
    with ab have "b ''id'' = a ''id''" by simp
    then have "dict_get b ''id'' = dict_get a ''id''" by (simp add: dict_get_def)
    with True ab bc show ?thesis by simp
  next
    case False
    with ab obtain k where k: "b ''id'' = Some (PStr (uuid4_str rt k))" by blast
    show ?thesis
    proof (cases "py_truthy (dict_get b ''id'')")
      case True
      with bc k False show ?thesis by auto
    next
      case False
      with bc \<open>\<not> py_truthy (dict_get a ''id'')\<close> show ?thesis by simp
    qed
  qed
qed

lemma validate_loop_event_value:
  assumes run: "validate_loop rt org rs acc (w :: ('c,'h) world) = (Inr vs, w')"
  shows "\<forall>r\<in>set rs.
     \<exists>f. heap w' r ''event_value'' = Some (PFloat f) \<and>
         py_float rt (case heap w r ''event_value'' of None \<Rightarrow> PFloat (Finite 0) | Some v \<Rightarrow> v) = Inr f"
proof (rule validate_loop_rel [where R = "\<lambda>a b.
     \<exists>f. b ''event_value'' = Some (PFloat f) \<and>
         py_float rt (case a ''event_value'' of None \<Rightarrow> PFloat (Finite 0) | Some v \<Rightarrow> v) = Inr f", OF _ _ run])
  fix ev ev' and w w' :: "('c,'h) world"
  assume "validate_event rt org ev w = (None, ev', w')"
  from validate_event_fields [OF this]
  show "\<exists>f. ev' ''event_value'' = Some (PFloat f) \<and>
         py_float rt (case ev ''event_value'' of None \<Rightarrow> PFloat (Finite 0) | Some v \<Rightarrow> v) = Inr f"
    by blast
next
  fix a b c :: event
  assume "\<exists>f. b ''event_value'' = Some (PFloat f) \<and>
         py_float rt (case a ''event_value'' of None \<Rightarrow> PFloat (Finite 0) | Some v \<Rightarrow> v) = Inr f"
    and "\<exists>f. c ''event_value'' = Some (PFloat f) \<and>
         py_float rt (case b ''event_value'' of None \<Rightarrow> PFloat (Finite 0) | Some v \<Rightarrow> v) = Inr f"
  then show "\<exists>f. c ''event_value'' = Some (PFloat f) \<and>
         py_float rt (case a ''event_value'' of None \<Rightarrow> PFloat (Finite 0) | Some v \<Rightarrow> v) = Inr f"
    by auto
qed

subsection \<open>Claims about validation\<close>

lemmas eval_defs = validate_events_def validate_event_def normalize_timestamp_def set_defaults_def
      draw_uuid_def setdefault_def dict_get_def test_runtime_def test_world_def Let_def

text \<open>
  Claim C2. After a validation that returns, every record of the input carries the
  organization id the caller supplied, whatever \<^verbatim>\<open>organization_id\<close> the record held
  before.
\<close>

theorem validate_events_organization_id:
  assumes "fst (validate_events rt events organization_id w) = Inr validated"
  shows "\<forall>r\<in>set events.
           heap (snd (validate_events rt events organization_id w)) r ''organization_id'' =
           Some (PStr organization_id)"
proof -
  from assms have run: "validate_loop rt organization_id events [] w =
      (Inr validated, snd (validate_events rt events organization_id w))"
    by (simp add: validate_events_def prod_eq_iff)
  show ?thesis
    by (rule validate_loop_post [where Q = "\<lambda>ev. ev ''organization_id'' = Some (PStr organization_id)", OF _ run])
       (rule validate_event_org)
qed

theorem validate_events_organization_id_witness:
  "fst (validate_events test_runtime [0, 1] ''acme'' test_world) = Inr [0, 1] \<and>
   heap test_world 0 ''organization_id'' = Some (PStr ''other-org'') \<and>
   heap (snd (validate_events test_runtime [0, 1] ''acme'' test_world)) 0 ''organization_id'' =
     Some (PStr ''acme'') \<and>
   heap (snd (validate_events test_runtime [0, 1] ''acme'' test_world)) 1 ''organization_id'' =
     Some (PStr ''acme'')"
proof -
  have run: "fst (validate_events test_runtime [0, 1] ''acme'' test_world) = Inr [0, 1]"
    by (simp add: eval_defs)
  have "heap test_world 0 ''organization_id'' = Some (PStr ''other-org'')"
    by (simp add: test_world_def)
  with run validate_events_organization_id [OF run] show ?thesis by simp
qed

text \<open>
  Claim C10. \<^verbatim>\<open>validate_events\<close> works in place: the list it returns is the list of
  references it was given (same length, same order, the same objects), no dictionary is
  allocated, dictionaries outside the input are untouched, and the normalisation is
  visible through the caller's own references.
\<close>

theorem validate_events_in_place:
  assumes "fst (validate_events rt events organization_id w) = Inr validated"
  shows "validated = events \<and>
         next_ref (snd (validate_events rt events organization_id w)) = next_ref w \<and>
         (\<forall>r. r \<notin> set events \<longrightarrow>
            heap (snd (validate_events rt events organization_id w)) r = heap w r) \<and>
         (\<forall>r\<in>set events.
            heap (snd (validate_events rt events organization_id w)) r ''organization_id'' =
            Some (PStr organization_id))"
proof -
  from assms have run: "validate_loop rt organization_id events [] w =
      (Inr validated, snd (validate_events rt events organization_id w))"
    by (simp add: validate_events_def prod_eq_iff)
  have "validated = events"
    using validate_loop_result [OF run] by simp
  moreover note validate_loop_frame [OF run]
  moreover have "\<forall>r\<in>set events.
            heap (snd (validate_events rt events organization_id w)) r ''organization_id'' =
            Some (PStr organization_id)"
    by (rule validate_loop_post [where Q = "\<lambda>ev. ev ''organization_id'' = Some (PStr organization_id)", OF _ run])
       (rule validate_event_org)
  ultimately show ?thesis by blast
qed

theorem validate_events_in_place_witness:
  "fst (validate_events test_runtime [1, 0, 1] ''acme'' test_world) = Inr [1, 0, 1] \<and>
   next_ref (snd (validate_events test_runtime [1, 0, 1] ''acme'' test_world)) = 5 \<and>
   heap (snd (validate_events test_runtime [1, 0, 1] ''acme'' test_world)) 2 = heap test_world 2 \<and>
   heap (snd (validate_events test_runtime [1, 0, 1] ''acme'' test_world)) 1 ''organization_id'' =
     Some (PStr ''acme'')"
proof -
  have run: "fst (validate_events test_runtime [1, 0, 1] ''acme'' test_world) = Inr [1, 0, 1]"
    by (simp add: eval_defs)
  have "next_ref test_world = 5" by (simp add: test_world_def)
  with run validate_events_in_place [OF run] show ?thesis by simp
qed

subsection \<open>When validation raises and when it returns\<close>

lemma validate_event_unfold:
  "validate_event rt org ev w =
     (let ev1 = (if \<not> py_truthy (dict_get ev ''id'')
                 then ev(''id'' \<mapsto> PStr (uuid4_str rt (uuids_drawn w))) else ev);
          w1 = (if \<not> py_truthy (dict_get ev ''id'')
                then w\<lparr>uuids_drawn := Suc (uuids_drawn w)\<rparr> else w);
          ev2 = ev1(''organization_id'' \<mapsto> PStr org)
      in case normalize_timestamp rt ev2 w1 of
           (Some e, ev3, w3) \<Rightarrow> (Some e, ev3, w3)
         | (None, ev3, w3) \<Rightarrow>
             (case fst (set_defaults rt ev3 w3) ''event_value'' of
                None \<Rightarrow> (Some (KeyError ''event_value''), set_defaults rt ev3 w3)
              | Some v \<Rightarrow>
                  (case py_float rt v of
                     Inl e \<Rightarrow> (Some e, set_defaults rt ev3 w3)
                   | Inr f \<Rightarrow> (None, (fst (set_defaults rt ev3 w3))(''event_value'' \<mapsto> PFloat f),
                              snd (set_defaults rt ev3 w3)))))"
  unfolding validate_event_def Let_def draw_uuid_def
  by (auto split: prod.splits option.splits sum.splits)

lemma set_defaults_event_value:
  "fst (set_defaults rt ev w) ''event_value'' =
     (case ev ''event_value'' of None \<Rightarrow> Some (PFloat (Finite 0)) | Some v \<Rightarrow> Some v)"
  by (simp add: set_defaults_def draw_uuid_def Let_def setdefault_apply split: option.splits)

lemma set_defaults_timestamp:
  "fst (set_defaults rt ev w) ''timestamp'' = ev ''timestamp''"
  by (simp add: set_defaults_def draw_uuid_def Let_def setdefault_apply split: option.splits)

lemma validate_event_bad:
  assumes "ev ''event_value'' = Some v" and "py_float rt v = Inl e"
  shows "fst (validate_event rt org ev w) \<noteq> None"
proof -
  let ?ev1 = "if \<not> py_truthy (dict_get ev ''id'')
                 then ev(''id'' \<mapsto> PStr (uuid4_str rt (uuids_drawn w))) else ev"
  let ?w1 = "if \<not> py_truthy (dict_get ev ''id'')
                then w\<lparr>uuids_drawn := Suc (uuids_drawn w)\<rparr> else w"
  let ?ev2 = "?ev1(''organization_id'' \<mapsto> PStr org)"
  obtain e3 ev3 w3 where ts: "normalize_timestamp rt ?ev2 ?w1 = (e3, ev3, w3)"
    by (metis surj_pair)
  have "ev3 ''event_value'' = ?ev2 ''event_value''"
    by (rule normalize_timestamp_other [OF ts]) simp
  with assms have "ev3 ''event_value'' = Some v" by simp
  then have "fst (set_defaults rt ev3 w3) ''event_value'' = Some v"
    by (simp add: set_defaults_event_value)
  with assms(2) ts show ?thesis
    by (cases e3) (simp_all add: validate_event_unfold Let_def)
qed

lemma validate_loop_bad:
  "\<exists>r\<in>set rs. \<exists>v e. heap w r ''event_value'' = Some v \<and> py_float rt v = Inl e \<Longrightarrow>
   \<exists>e. fst (validate_loop rt org rs acc w) = Inl e"
proof (induction rs arbitrary: acc w)
  case Nil
  then show ?case by simp
next
  case (Cons r rs)
  obtain err ev1 w1 where ve: "validate_event rt org (heap w r) w = (err, ev1, w1)"
    by (metis surj_pair)
  define w2 where "w2 = w1\<lparr>heap := (heap w1)(r := ev1)\<rparr>"
  show ?case
  proof (cases err)
    case (Some e)
    with ve show ?thesis by simp
  next
    case None
    from Cons.prems obtain x v e where x: "x \<in> set (r # rs)"
      and bad: "heap w x ''event_value'' = Some v" "py_float rt v = Inl e" by blast
    have "x \<noteq> r"
    proof
      assume "x = r"
      with bad validate_event_bad [of "heap w r" v rt e org w] ve None show False by simp
    qed
    with x have xin: "x \<in> set rs" by simp
    have "heap w2 x ''event_value'' = Some v"
      using validate_event_frame [OF ve] \<open>x \<noteq> r\<close> bad(1) by (simp add: w2_def)
    with bad(2) xin
    have "\<exists>r\<in>set rs. \<exists>v e. heap w2 r ''event_value'' = Some v \<and> py_float rt v = Inl e"
      by blast
    then have "\<exists>e. fst (validate_loop rt org rs (acc @ [r]) w2) = Inl e"
      by (rule Cons.IH)
    with ve None show ?thesis by (simp add: w2_def)
  qed
qed

lemma normalize_timestamp_good:
  assumes "\<forall>v. ev ''timestamp'' = Some v \<longrightarrow>
             is_instant v \<or> (\<exists>t. to_datetime rt v = Inr (PTimestamp t))"
  shows "\<exists>ev' w'. normalize_timestamp rt ev w = (None, ev', w') \<and>
           (\<exists>t. ev' ''timestamp'' = Some (PTimestamp t))"
proof (cases "ev ''timestamp''")
  case None
  then show ?thesis by (simp add: normalize_timestamp_def)
next
  case (Some v)
  show ?thesis
  proof (cases "is_instant v")
    case True
    then obtain t where "v = PTimestamp t" by (cases v) auto
    with Some show ?thesis by (simp add: normalize_timestamp_def)
  next
    case False
    with assms Some obtain t where "to_datetime rt v = Inr (PTimestamp t)" by blast
    with Some False show ?thesis by (simp add: normalize_timestamp_def)
  qed
qed

lemma validate_event_good:
  assumes fl: "\<forall>v. ev ''event_value'' = Some v \<longrightarrow> (\<exists>f. py_float rt v = Inr f)"
    and ts: "\<forall>v. ev ''timestamp'' = Some v \<longrightarrow>
             is_instant v \<or> (\<exists>t. to_datetime rt v = Inr (PTimestamp t))"
  shows "\<exists>ev' w'. validate_event rt org ev w = (None, ev', w') \<and>
           (\<exists>f. ev' ''event_value'' = Some (PFloat f)) \<and>
           (\<exists>t. ev' ''timestamp'' = Some (PTimestamp t))"
proof -
  let ?ev1 = "if \<not> py_truthy (dict_get ev ''id'')
                 then ev(''id'' \<mapsto> PStr (uuid4_str rt (uuids_drawn w))) else ev"
  let ?w1 = "if \<not> py_truthy (dict_get ev ''id'')
                then w\<lparr>uuids_drawn := Suc (uuids_drawn w)\<rparr> else w"
  let ?ev2 = "?ev1(''organization_id'' \<mapsto> PStr org)"
  have "?ev2 ''timestamp'' = ev ''timestamp''" by simp
  with ts have "\<forall>v. ?ev2 ''timestamp'' = Some v \<longrightarrow>
             is_instant v \<or> (\<exists>t. to_datetime rt v = Inr (PTimestamp t))" by simp
  then have "\<exists>ev' w'. normalize_timestamp rt ?ev2 ?w1 = (None, ev', w') \<and>
           (\<exists>t. ev' ''timestamp'' = Some (PTimestamp t))"
    by (rule normalize_timestamp_good)
  then obtain ev3 w3 t where nt: "normalize_timestamp rt ?ev2 ?w1 = (None, ev3, w3)"
    and t: "ev3 ''timestamp'' = Some (PTimestamp t)" by blast
  have "ev3 ''event_value'' = ?ev2 ''event_value''"
    by (rule normalize_timestamp_other [OF nt]) simp
  then have ev3: "ev3 ''event_value'' = ev ''event_value''" by simp
  obtain v where v: "fst (set_defaults rt ev3 w3) ''event_value'' = Some v"
    and "v = (case ev ''event_value'' of None \<Rightarrow> PFloat (Finite 0) | Some x \<Rightarrow> x)"
    by (simp add: set_defaults_event_value ev3 split: option.splits)
  with fl obtain f where f: "py_float rt v = Inr f"
    by (cases "ev ''event_value''") auto
  from nt v f t show ?thesis
    by (simp add: validate_event_unfold Let_def set_defaults_timestamp)
qed

lemma validate_loop_good:
  "\<forall>r\<in>set rs. (\<forall>v. heap w r ''event_value'' = Some v \<longrightarrow> (\<exists>f. py_float rt v = Inr f)) \<and>
       (\<forall>v. heap w r ''timestamp'' = Some v \<longrightarrow>
             is_instant v \<or> (\<exists>t. to_datetime rt v = Inr (PTimestamp t))) \<Longrightarrow>
   fst (validate_loop rt org rs acc w) = Inr (acc @ rs)"
proof (induction rs arbitrary: acc w)
  case Nil
  then show ?case by simp
next
  case (Cons r rs)
  from Cons.prems have
    "\<forall>v. heap w r ''event_value'' = Some v \<longrightarrow> (\<exists>f. py_float rt v = Inr f)"
    "\<forall>v. heap w r ''timestamp'' = Some v \<longrightarrow>
             is_instant v \<or> (\<exists>t. to_datetime rt v = Inr (PTimestamp t))"
    by simp_all
  from validate_event_good [OF this, of org w]
  obtain ev1 w1 f t where ve: "validate_event rt org (heap w r) w = (None, ev1, w1)"
    and f: "ev1 ''event_value'' = Some (PFloat f)"
    and t: "ev1 ''timestamp'' = Some (PTimestamp t)" by blast
  let ?w = "w1\<lparr>heap := (heap w1)(r := ev1)\<rparr>"
  have hp: "heap w1 = heap w" using validate_event_frame [OF ve] by simp
  have "\<forall>x\<in>set rs. (\<forall>v. heap ?w x ''event_value'' = Some v \<longrightarrow> (\<exists>f. py_float rt v = Inr f)) \<and>
       (\<forall>v. heap ?w x ''timestamp'' = Some v \<longrightarrow>
             is_instant v \<or> (\<exists>t. to_datetime rt v = Inr (PTimestamp t)))"
  proof
    fix x assume x: "x \<in> set rs"
    show "(\<forall>v. heap ?w x ''event_value'' = Some v \<longrightarrow> (\<exists>f. py_float rt v = Inr f)) \<and>
       (\<forall>v. heap ?w x ''timestamp'' = Some v \<longrightarrow>
             is_instant v \<or> (\<exists>t. to_datetime rt v = Inr (PTimestamp t)))"
    proof (cases "x = r")
      case True
      with f t show ?thesis by simp
    next
      case False
      with Cons.prems x hp show ?thesis by simp
    qed
  qed
  from Cons.IH [OF this, of "acc @ [r]"] ve show ?case by simp
qed

subsection \<open>Claims about defaults and conversion\<close>

text \<open>
  Claim C3, as the code has it. After a validation that returns, for every record of the
  input: \<^verbatim>\<open>id\<close> is kept when it is truthy and is a generated uuid when it is absent
  or falsy (\<^verbatim>\<open>None\<close>, \<^verbatim>\<open>False\<close>, zero, the empty string); each of
  \<^verbatim>\<open>event_id\<close>, \<^verbatim>\<open>event_type\<close>, \<^verbatim>\<open>currency\<close>, \<^verbatim>\<open>user_id\<close> and
  \<^verbatim>\<open>session_id\<close> holds its default (a generated id, \<^verbatim>\<open>conversion\<close>,
  \<^verbatim>\<open>USD\<close>, \<^verbatim>\<open>unknown\<close>, a generated id) when the key was absent and is
  unchanged when the key was present; \<^verbatim>\<open>event_value\<close> is \<open>0.0\<close> when the key was
  absent and the float conversion of the value present otherwise.
\<close>

theorem validate_events_defaults:
  assumes run: "validate_events rt events organization_id w = (Inr validated, w')"
    and r: "r \<in> set events"
  shows
    "(py_truthy (dict_get (heap w r) ''id'') \<longrightarrow> heap w' r ''id'' = heap w r ''id'') \<and>
     (\<not> py_truthy (dict_get (heap w r) ''id'') \<longrightarrow>
        (\<exists>k. heap w' r ''id'' = Some (PStr (uuid4_str rt k)))) \<and>
     (heap w r ''event_id'' = None \<longrightarrow>
        (\<exists>k. heap w' r ''event_id'' = Some (PStr (uuid4_str rt k)))) \<and>
     (heap w r ''event_id'' \<noteq> None \<longrightarrow> heap w' r ''event_id'' = heap w r ''event_id'') \<and>
     (heap w r ''event_type'' = None \<longrightarrow> heap w' r ''event_type'' = Some (PStr ''conversion'')) \<and>
     (heap w r ''event_type'' \<noteq> None \<longrightarrow> heap w' r ''event_type'' = heap w r ''event_type'') \<and>
     (heap w r ''event_value'' = None \<longrightarrow> heap w' r ''event_value'' = Some (PFloat (Finite 0))) \<and>
     (\<forall>v. heap w r ''event_value'' = Some v \<longrightarrow>
        (\<exists>f. py_float rt v = Inr f \<and> heap w' r ''event_value'' = Some (PFloat f))) \<and>
     (heap w r ''currency'' = None \<longrightarrow> heap w' r ''currency'' = Some (PStr ''USD'')) \<and>
     (heap w r ''currency'' \<noteq> None \<longrightarrow> heap w' r ''currency'' = heap w r ''currency'') \<and>
     (heap w r ''user_id'' = None \<longrightarrow> heap w' r ''user_id'' = Some (PStr ''unknown'')) \<and>
     (heap w r ''user_id'' \<noteq> None \<longrightarrow> heap w' r ''user_id'' = heap w r ''user_id'') \<and>
     (heap w r ''session_id'' = None \<longrightarrow>
        (\<exists>k. heap w' r ''session_id'' = Some (PStr (uuid4_str rt k)))) \<and>
     (heap w r ''session_id'' \<noteq> None \<longrightarrow> heap w' r ''session_id'' = heap w r ''session_id'')"
proof -
  from run have loop: "validate_loop rt organization_id events [] w = (Inr validated, w')"
    by (simp add: validate_events_def)
  have id: "(py_truthy (dict_get (heap w r) ''id'') \<longrightarrow> heap w' r ''id'' = heap w r ''id'') \<and>
     (\<not> py_truthy (dict_get (heap w r) ''id'') \<longrightarrow>
        (\<exists>k. heap w' r ''id'' = Some (PStr (uuid4_str rt k))))"
    using validate_loop_id [OF loop] r by blast
  have event_id: "(heap w r ''event_id'' = None \<longrightarrow>
        (\<exists>k. heap w' r ''event_id'' = Some (PStr (uuid4_str rt k)))) \<and>
     (heap w r ''event_id'' \<noteq> None \<longrightarrow> heap w' r ''event_id'' = heap w r ''event_id'')"
  proof -
    have "\<forall>r\<in>set events. (heap w r ''event_id'' = None \<longrightarrow>
        (\<lambda>x. \<exists>k. x = Some (PStr (uuid4_str rt k))) (heap w' r ''event_id'')) \<and>
       (heap w r ''event_id'' \<noteq> None \<longrightarrow> heap w' r ''event_id'' = heap w r ''event_id'')"
    proof (rule validate_loop_default [OF _ loop])
      fix ev ev' and u u' :: "('a, 'b) world"
      assume "validate_event rt organization_id ev u = (None, ev', u')"
      from validate_event_fields [OF this]
      show "(ev ''event_id'' = None \<longrightarrow> (\<exists>k. ev' ''event_id'' = Some (PStr (uuid4_str rt k)))) \<and>
            (ev ''event_id'' \<noteq> None \<longrightarrow> ev' ''event_id'' = ev ''event_id'')"
        by (cases "ev ''event_id''") auto
    qed
    with r show ?thesis by blast
  qed
  have session_id: "(heap w r ''session_id'' = None \<longrightarrow>
        (\<exists>k. heap w' r ''session_id'' = Some (PStr (uuid4_str rt k)))) \<and>
     (heap w r ''session_id'' \<noteq> None \<longrightarrow> heap w' r ''session_id'' = heap w r ''session_id'')"
  proof -
    have "\<forall>r\<in>set events. (heap w r ''session_id'' = None \<longrightarrow>
        (\<lambda>x. \<exists>k. x = Some (PStr (uuid4_str rt k))) (heap w' r ''session_id'')) \<and>
       (heap w r ''session_id'' \<noteq> None \<longrightarrow> heap w' r ''session_id'' = heap w r ''session_id'')"
    proof (rule validate_loop_default [OF _ loop])
      fix ev ev' and u u' :: "('a, 'b) world"
      assume "validate_event rt organization_id ev u = (None, ev', u')"
      from validate_event_fields [OF this]
      show "(ev ''session_id'' = None \<longrightarrow> (\<exists>k. ev' ''session_id'' = Some (PStr (uuid4_str rt k)))) \<and>
            (ev ''session_id'' \<noteq> None \<longrightarrow> ev' ''session_id'' = ev ''session_id'')"
        by (cases "ev ''session_id''") auto
    qed
    with r show ?thesis by blast
  qed
  have event_type: "(heap w r ''event_type'' = None \<longrightarrow> heap w' r ''event_type'' = Some (PStr ''conversion'')) \<and>
     (heap w r ''event_type'' \<noteq> None \<longrightarrow> heap w' r ''event_type'' = heap w r ''event_type'')"
  proof -
    have "\<forall>r\<in>set events. (heap w r ''event_type'' = None \<longrightarrow>
        (\<lambda>x. x = Some (PStr ''conversion'')) (heap w' r ''event_type'')) \<and>
       (heap w r ''event_type'' \<noteq> None \<longrightarrow> heap w' r ''event_type'' = heap w r ''event_type'')"
    proof (rule validate_loop_default [OF _ loop])
      fix ev ev' and u u' :: "('a, 'b) world"
      assume "validate_event rt organization_id ev u = (None, ev', u')"
      from validate_event_fields [OF this]
      show "(ev ''event_type'' = None \<longrightarrow> ev' ''event_type'' = Some (PStr ''conversion'')) \<and>
            (ev ''event_type'' \<noteq> None \<longrightarrow> ev' ''event_type'' = ev ''event_type'')"
        by (cases "ev ''event_type''") auto
    qed
    with r show ?thesis by blast
  qed
  have currency: "(heap w r ''currency'' = None \<longrightarrow> heap w' r ''currency'' = Some (PStr ''USD'')) \<and>
     (heap w r ''currency'' \<noteq> None \<longrightarrow> heap w' r ''currency'' = heap w r ''currency'')"
  proof -
    have "\<forall>r\<in>set events. (heap w r ''currency'' = None \<longrightarrow>
        (\<lambda>x. x = Some (PStr ''USD'')) (heap w' r ''currency'')) \<and>
       (heap w r ''currency'' \<noteq> None \<longrightarrow> heap w' r ''currency'' = heap w r ''currency'')"
    proof (rule validate_loop_default [OF _ loop])
      fix ev ev' and u u' :: "('a, 'b) world"
      assume "validate_event rt organization_id ev u = (None, ev', u')"
      from validate_event_fields [OF this]
      show "(ev ''currency'' = None \<longrightarrow> ev' ''currency'' = Some (PStr ''USD'')) \<and>
            (ev ''currency'' \<noteq> None \<longrightarrow> ev' ''currency'' = ev ''currency'')"
        by (cases "ev ''currency''") auto
    qed
    with r show ?thesis by blast
  qed
  have user_id: "(heap w r ''user_id'' = None \<longrightarrow> heap w' r ''user_id'' = Some (PStr ''unknown'')) \<and>
     (heap w r ''user_id'' \<noteq> None \<longrightarrow> heap w' r ''user_id'' = heap w r ''user_id'')"
  proof -
    have "\<forall>r\<in>set events. (heap w r ''user_id'' = None \<longrightarrow>
        (\<lambda>x. x = Some (PStr ''unknown'')) (heap w' r ''user_id'')) \<and>
       (heap w r ''user_id'' \<noteq> None \<longrightarrow> heap w' r ''user_id'' = heap w r ''user_id'')"
    proof (rule validate_loop_default [OF _ loop])
      fix ev ev' and u u' :: "('a, 'b) world"
      assume "validate_event rt organization_id ev u = (None, ev', u')"
      from validate_event_fields [OF this]
      show "(ev ''user_id'' = None \<longrightarrow> ev' ''user_id'' = Some (PStr ''unknown'')) \<and>
            (ev ''user_id'' \<noteq> None \<longrightarrow> ev' ''user_id'' = ev ''user_id'')"
        by (cases "ev ''user_id''") auto
    qed
    with r show ?thesis by blast
  qed
  have event_value: "(heap w r ''event_value'' = None \<longrightarrow> heap w' r ''event_value'' = Some (PFloat (Finite 0))) \<and>
     (\<forall>v. heap w r ''event_value'' = Some v \<longrightarrow>
        (\<exists>f. py_float rt v = Inr f \<and> heap w' r ''event_value'' = Some (PFloat f)))"
  proof -
    from validate_loop_event_value [OF loop] r obtain f where
      "heap w' r ''event_value'' = Some (PFloat f)"
      "py_float rt (case heap w r ''event_value'' of None \<Rightarrow> PFloat (Finite 0) | Some v \<Rightarrow> v) = Inr f"
      by blast
    then show ?thesis by (cases "heap w r ''event_value''") auto
  qed
  from id event_id event_type event_value currency user_id session_id
  show ?thesis by blast
qed

theorem validate_events_defaults_witness:
  "fst (validate_events test_runtime [0, 1] ''acme'' test_world) = Inr [0, 1] \<and>
   heap (snd (validate_events test_runtime [0, 1] ''acme'' test_world)) 0 ''id'' =
     Some (PStr ''e-1'') \<and>
   heap (snd (validate_events test_runtime [0, 1] ''acme'' test_world)) 0 ''event_value'' =
     Some (PFloat (Finite (1999 / 100))) \<and>
   heap (snd (validate_events test_runtime [0, 1] ''acme'' test_world)) 1 ''event_type'' =
     Some (PStr ''conversion'') \<and>
   heap (snd (validate_events test_runtime [0, 1] ''acme'' test_world)) 1 ''event_value'' =
     Some (PFloat (Finite 0))"
proof -
  define w' where "w' = snd (validate_events test_runtime [0, 1] ''acme'' test_world)"
  have fst_run: "fst (validate_events test_runtime [0, 1] ''acme'' test_world) = Inr [0, 1]"
    by (simp add: eval_defs)
  then have run: "validate_events test_runtime [0, 1] ''acme'' test_world = (Inr [0, 1], w')"
    by (simp add: w'_def prod_eq_iff)
  have h0: "heap test_world 0 ''id'' = Some (PStr ''e-1'')"
      "heap test_world 0 ''event_value'' = Some (PStr ''19.99'')"
    and h1: "heap test_world 1 ''event_type'' = None" "heap test_world 1 ''event_value'' = None"
    by (simp_all add: test_world_def)
  have f: "py_float test_runtime (PStr ''19.99'') = Inr (Finite (1999 / 100))"
    by (simp add: test_runtime_def)
  have t: "py_truthy (dict_get (heap test_world 0) ''id'')"
    by (simp add: dict_get_def h0)
  from validate_events_defaults [OF run, of 0] t h0 f
  have a: "heap w' 0 ''id'' = Some (PStr ''e-1'')"
    "heap w' 0 ''event_value'' = Some (PFloat (Finite (1999 / 100)))"
    by auto
  from validate_events_defaults [OF run, of 1] h1
  have b: "heap w' 1 ''event_type'' = Some (PStr ''conversion'')"
    "heap w' 1 ''event_value'' = Some (PFloat (Finite 0))"
    by auto
  from fst_run a b show ?thesis unfolding w'_def by blast
qed

text \<open>
  The claim as the specification words it fails for \<^verbatim>\<open>id\<close>: a record whose id is
  present with the value \<open>0\<close> leaves validation with a generated uuid.
\<close>

theorem validate_events_falsy_id_counterexample:
  "heap test_world 2 ''id'' = Some (PInt 0) \<and>
   fst (validate_events test_runtime [2] ''acme'' test_world) = Inr [2] \<and>
   heap (snd (validate_events test_runtime [2] ''acme'' test_world)) 2 ''id'' =
     Some (PStr ''uuid-u'')"
  by (simp add: eval_defs)

text \<open>
  Claim C4, as the code has it. A record whose \<^verbatim>\<open>event_value\<close> the builtin
  \<^verbatim>\<open>float\<close> rejects makes the whole validation raise: no list is returned. When every
  \<^verbatim>\<open>event_value\<close> present is convertible and every timestamp present is an instant or
  is parsed into one, validation returns all the records, each with its
  \<^verbatim>\<open>event_value\<close> converted to a float.
\<close>

theorem validate_events_event_value:
  "((\<exists>r\<in>set events. \<exists>v e. heap w r ''event_value'' = Some v \<and> py_float rt v = Inl e) \<longrightarrow>
      (\<exists>e. fst (validate_events rt events organization_id w) = Inl e)) \<and>
   ((\<forall>r\<in>set events.
        (\<forall>v. heap w r ''event_value'' = Some v \<longrightarrow> (\<exists>f. py_float rt v = Inr f)) \<and>
        (\<forall>v. heap w r ''timestamp'' = Some v \<longrightarrow>
           is_instant v \<or> (\<exists>t. to_datetime rt v = Inr (PTimestamp t)))) \<longrightarrow>
      fst (validate_events rt events organization_id w) = Inr events \<and>
      (\<forall>r\<in>set events. \<exists>f.
         heap (snd (validate_events rt events organization_id w)) r ''event_value'' =
           Some (PFloat f) \<and>
         py_float rt (case heap w r ''event_value'' of None \<Rightarrow> PFloat (Finite 0) | Some v \<Rightarrow> v) =
           Inr f))"
proof (intro conjI impI)
  assume "\<exists>r\<in>set events. \<exists>v e. heap w r ''event_value'' = Some v \<and> py_float rt v = Inl e"
  then show "\<exists>e. fst (validate_events rt events organization_id w) = Inl e"
    unfolding validate_events_def by (rule validate_loop_bad)
next
  assume good: "\<forall>r\<in>set events.
        (\<forall>v. heap w r ''event_value'' = Some v \<longrightarrow> (\<exists>f. py_float rt v = Inr f)) \<and>
        (\<forall>v. heap w r ''timestamp'' = Some v \<longrightarrow>
           is_instant v \<or> (\<exists>t. to_datetime rt v = Inr (PTimestamp t)))"
  have "fst (validate_loop rt organization_id events [] w) = Inr ([] @ events)"
    using good by (rule validate_loop_good)
  then show ok: "fst (validate_events rt events organization_id w) = Inr events"
    by (simp add: validate_events_def)
  then have loop: "validate_loop rt organization_id events [] w =
      (Inr events, snd (validate_events rt events organization_id w))"
    by (simp add: validate_events_def prod_eq_iff)
  show "\<forall>r\<in>set events. \<exists>f.
         heap (snd (validate_events rt events organization_id w)) r ''event_value'' =
           Some (PFloat f) \<and>
         py_float rt (case heap w r ''event_value'' of None \<Rightarrow> PFloat (Finite 0) | Some v \<Rightarrow> v) =
           Inr f"
    by (rule validate_loop_event_value [OF loop])
qed

theorem validate_events_event_value_witness:
  "(\<exists>e. fst (validate_events test_runtime [0, 4, 1] ''acme'' test_world) = Inl e) \<and>
   fst (validate_events test_runtime [0, 1, 2] ''acme'' test_world) = Inr [0, 1, 2] \<and>
   (\<exists>f. heap (snd (validate_events test_runtime [0, 1, 2] ''acme'' test_world)) 2 ''event_value'' =
      Some (PFloat f))"
proof -
  have bad: "\<exists>r\<in>set [0, 4, 1]. \<exists>v e. heap test_world r ''event_value'' = Some v \<and>
      py_float test_runtime v = Inl e"
    by (simp add: test_world_def test_runtime_def)
  have good: "\<forall>r\<in>set [0, 1, 2].
        (\<forall>v. heap test_world r ''event_value'' = Some v \<longrightarrow> (\<exists>f. py_float test_runtime v = Inr f)) \<and>
        (\<forall>v. heap test_world r ''timestamp'' = Some v \<longrightarrow>
           is_instant v \<or> (\<exists>t. to_datetime test_runtime v = Inr (PTimestamp t)))"
    by (simp add: test_world_def test_runtime_def)
  from validate_events_event_value [of "[0, 4, 1]" test_world test_runtime "''acme''"] bad
  have a: "\<exists>e. fst (validate_events test_runtime [0, 4, 1] ''acme'' test_world) = Inl e"
    by blast
  from validate_events_event_value [of "[0, 1, 2]" test_world test_runtime "''acme''"] good
  have b: "fst (validate_events test_runtime [0, 1, 2] ''acme'' test_world) = Inr [0, 1, 2] \<and>
      (\<forall>r\<in>set [0, 1, 2]. \<exists>f.
         heap (snd (validate_events test_runtime [0, 1, 2] ''acme'' test_world)) r ''event_value'' =
           Some (PFloat f) \<and>
         py_float test_runtime (case heap test_world r ''event_value'' of
            None \<Rightarrow> PFloat (Finite 0) | Some v \<Rightarrow> v) = Inr f)"
    by blast
  then have "\<exists>f. heap (snd (validate_events test_runtime [0, 1, 2] ''acme'' test_world)) 2 ''event_value'' =
      Some (PFloat f)"
    by auto
  with a b show ?thesis by blast
qed

text \<open>
  Convertible \<^verbatim>\<open>event_value\<close> fields alone do not make validation succeed: a
  timestamp string that is no date raises in the timestamp block.
\<close>

theorem validate_events_bad_timestamp_counterexample:
  "heap test_world 3 ''event_value'' = Some (PFloat (Finite 1)) \<and>
   py_float test_runtime (PFloat (Finite 1)) = Inr (Finite 1) \<and>
   fst (validate_events test_runtime [3] ''acme'' test_world) =
     Inl (ValueError ''Unknown datetime string format: not-a-date'')"
  by (simp add: eval_defs)

section \<open>Properties of configuration\<close>

lemma apply_env_map:
  "\<exists>m. apply_env env ms (YMap c) = Inr (YMap m)"
proof (induction ms arbitrary: c)
  case Nil
  show ?case by simp
next
  case (Cons p ms)
  obtain ek ck where p: "p = (ek, ck)" by (cases p)
  show ?case
  proof (cases "env ek")
    case None
    with p Cons.IH [of c] show ?thesis by simp
  next
    case (Some v)
    show ?thesis
    proof (cases "v = []")
      case True
      with p Some Cons.IH [of c] show ?thesis by simp
    next
      case False
      from Cons.IH [of "c(ck \<mapsto> PStr v)"] obtain m where
        "apply_env env ms (YMap (c(ck \<mapsto> PStr v))) = Inr (YMap m)" by blast
      with p Some False have "apply_env env (p # ms) (YMap c) = Inr (YMap m)" by simp
      then show ?thesis by blast
    qed
  qed
qed

lemma missing_of_map:
  "missing_of (YMap m) fs = Inr (filter (\<lambda>f. m f = None) fs)"
  by (induction fs) auto

lemma apply_env_none:
  "apply_env env ms YNone = Inr YNone \<or> apply_env env ms YNone = Inl TypeError"
proof (induction ms)
  case Nil
  show ?case by simp
next
  case (Cons p ms)
  obtain ek ck where p: "p = (ek, ck)" by (cases p)
  show ?case
  proof (cases "env ek")
    case None
    with p Cons.IH show ?thesis by simp
  next
    case (Some v)
    with p Cons.IH show ?thesis by (cases "v = []") simp_all
  qed
qed

text \<open>
  When the file is absent or holds a mapping, \<^verbatim>\<open>_load_config\<close> raises on a missing
  required key, with a message that lists exactly the missing keys in the order of
  \<^verbatim>\<open>required_fields\<close>, and otherwise returns the merged configuration with the three
  defaults where the keys were absent.
\<close>

lemma load_config_mapping:
  assumes src: "config_file = None \<and> c0 = Map.empty \<or> config_file = Some (Inr (YMap c0))"
    and merged: "apply_env env env_mapping (YMap c0) = Inr (YMap merged)"
  shows
    "((\<exists>f\<in>set required_fields. merged f = None) \<longrightarrow>
        load_config config_file env =
          Inl (ValueError (''Missing required configuration: '' @
                 join '', '' (filter (\<lambda>f. merged f = None) required_fields)))) \<and>
     ((\<forall>f\<in>set required_fields. merged f \<noteq> None) \<longrightarrow>
        (\<exists>cfg. load_config config_file env = Inr cfg \<and>
           cfg ''batch_size'' =
             (case merged ''batch_size'' of None \<Rightarrow> Some (PInt 10000) | Some v \<Rightarrow> Some v) \<and>
           cfg ''namespace'' =
             (case merged ''namespace'' of None \<Rightarrow> Some (PStr ''default'') | Some v \<Rightarrow> Some v) \<and>
           cfg ''table_name'' =
             (case merged ''table_name'' of
                None \<Rightarrow> Some (PStr ''conversion_events'') | Some v \<Rightarrow> Some v) \<and>
           (\<forall>k. k \<noteq> ''batch_size'' \<and> k \<noteq> ''namespace'' \<and> k \<noteq> ''table_name'' \<longrightarrow>
                cfg k = merged k)))"
proof -
  from src have start:
    "(case config_file of None \<Rightarrow> Inr (YMap Map.empty) | Some loaded \<Rightarrow> loaded) = Inr (YMap c0)"
    by auto
  show ?thesis
  proof (intro conjI impI)
    assume "\<exists>f\<in>set required_fields. merged f = None"
    then have "filter (\<lambda>f. merged f = None) required_fields \<noteq> []"
      by (simp add: filter_empty_conv)
    then show "load_config config_file env =
          Inl (ValueError (''Missing required configuration: '' @
                 join '', '' (filter (\<lambda>f. merged f = None) required_fields)))"
      unfolding load_config_def start by (simp add: merged missing_of_map)
  next
    assume "\<forall>f\<in>set required_fields. merged f \<noteq> None"
    then have none: "filter (\<lambda>f. merged f = None) required_fields = []"
      by (simp add: filter_empty_conv)
    define cfg where "cfg = setdefault (setdefault (setdefault merged ''batch_size'' (PInt 10000))
      ''namespace'' (PStr ''default'')) ''table_name'' (PStr ''conversion_events'')"
    from none have "load_config config_file env = Inr cfg"
      unfolding load_config_def start cfg_def by (simp add: merged missing_of_map)
    moreover have "cfg ''batch_size'' =
             (case merged ''batch_size'' of None \<Rightarrow> Some (PInt 10000) | Some v \<Rightarrow> Some v)"
      by (simp add: cfg_def setdefault_apply)
    moreover have "cfg ''namespace'' =
             (case merged ''namespace'' of None \<Rightarrow> Some (PStr ''default'') | Some v \<Rightarrow> Some v)"
      by (simp add: cfg_def setdefault_apply)
    moreover have "cfg ''table_name'' =
             (case merged ''table_name'' of
                None \<Rightarrow> Some (PStr ''conversion_events'') | Some v \<Rightarrow> Some v)"
      by (simp add: cfg_def setdefault_apply)
    moreover have "\<forall>k. k \<noteq> ''batch_size'' \<and> k \<noteq> ''namespace'' \<and> k \<noteq> ''table_name'' \<longrightarrow>
                cfg k = merged k"
      by (simp add: cfg_def setdefault_apply)
    ultimately show "\<exists>cfg. load_config config_file env = Inr cfg \<and>
           cfg ''batch_size'' =
             (case merged ''batch_size'' of None \<Rightarrow> Some (PInt 10000) | Some v \<Rightarrow> Some v) \<and>
           cfg ''namespace'' =
             (case merged ''namespace'' of None \<Rightarrow> Some (PStr ''default'') | Some v \<Rightarrow> Some v) \<and>
           cfg ''table_name'' =
             (case merged ''table_name'' of
                None \<Rightarrow> Some (PStr ''conversion_events'') | Some v \<Rightarrow> Some v) \<and>
           (\<forall>k. k \<noteq> ''batch_size'' \<and> k \<noteq> ''namespace'' \<and> k \<noteq> ''table_name'' \<longrightarrow>
                cfg k = merged k)"
      by blast
  qed
qed

text \<open>
  Claim C7, on an existing configuration file that is empty or holds only comments: the
  code does not do what the claim says.
  \<^verbatim>\<open>yaml.safe_load\<close> returns \<^verbatim>\<open>None\<close> for it, and \<^verbatim>\<open>_load_config\<close>
  raises \<^verbatim>\<open>TypeError\<close> whatever the environment holds: at the first override when
  a mapped variable is set, at the test for required keys otherwise. With every
  required key in the environment the claim promises a configuration with the defaults,
  which is what the code returns when the file does not exist; with none it promises an
  error that names the missing keys.
\<close>

theorem load_config_empty_file:
  "load_config (Some (Inr YNone)) env = Inl TypeError"
proof -
  from apply_env_none [of env env_mapping]
  show ?thesis
  proof
    assume "apply_env env env_mapping YNone = Inr YNone"
    then show ?thesis by (simp add: load_config_def required_fields_def)
  next
    assume "apply_env env env_mapping YNone = Inl TypeError"
    then show ?thesis by (simp add: load_config_def)
  qed
qed

lemma load_config_no_file_example:
  "\<exists>cfg. load_config None test_env_full = Inr cfg \<and>
     cfg ''catalog_uri'' = Some (PStr ''https://catalog.example/r2'') \<and>
     cfg ''batch_size'' = Some (PInt 10000)"
proof -
  define m :: config where "m = [''catalog_uri'' \<mapsto> PStr ''https://catalog.example/r2'',
      ''warehouse_name'' \<mapsto> PStr ''wh'', ''api_token'' \<mapsto> PStr ''env-token'']"
  have e: "apply_env test_env_full env_mapping (YMap Map.empty) = Inr (YMap m)"
    by (simp add: env_mapping_def test_env_full_def m_def)
  have full: "\<forall>f\<in>set required_fields. m f \<noteq> None"
    by (simp add: required_fields_def m_def)
  from load_config_mapping [OF _ e, of None] full
  obtain cfg where cfg: "load_config None test_env_full = Inr cfg"
    and bs: "cfg ''batch_size'' =
             (case m ''batch_size'' of None \<Rightarrow> Some (PInt 10000) | Some v \<Rightarrow> Some v)"
    and other: "\<forall>k. k \<noteq> ''batch_size'' \<and> k \<noteq> ''namespace'' \<and> k \<noteq> ''table_name'' \<longrightarrow>
                cfg k = m k"
    by blast
  from other have "cfg ''catalog_uri'' = m ''catalog_uri''" by simp
  then have "cfg ''catalog_uri'' = Some (PStr ''https://catalog.example/r2'')"
    by (simp add: m_def)
  moreover from bs have "cfg ''batch_size'' = Some (PInt 10000)" by (simp add: m_def)
  ultimately show ?thesis using cfg by blast
qed

lemma load_config_missing_example:
  "load_config None test_env =
     Inl (ValueError ''Missing required configuration: catalog_uri, warehouse_name'')"
proof -
  define m :: config where "m = [''api_token'' \<mapsto> PStr ''env-token'']"
  have e: "apply_env test_env env_mapping (YMap Map.empty) = Inr (YMap m)"
    by (simp add: env_mapping_def test_env_def m_def)
  have miss: "\<exists>f\<in>set required_fields. m f = None"
    by (simp add: required_fields_def m_def)
  have names: "filter (\<lambda>f. m f = None) required_fields = [''catalog_uri'', ''warehouse_name'']"
    by (simp add: required_fields_def m_def)
  from load_config_mapping [OF _ e, of None] miss
  have "load_config None test_env =
          Inl (ValueError (''Missing required configuration: '' @
                 join '', '' (filter (\<lambda>f. m f = None) required_fields)))"
    by blast
  then show ?thesis by (simp add: names)
qed

section \<open>Properties of table provisioning\<close>

lemma create_or_get_table_loaded:
  assumes "table_identifier rt cfg = Inr table_id"
    and "load_table ops table_id (catalog w) = (Inr table, c')"
  shows "create_or_get_table rt ops cfg w =
           (Inr table, w\<lparr>catalog := c', trace := trace w @ [LoadTable table_id]\<rparr>)"
  using assms by (simp add: create_or_get_table_def call_load_table_def)

lemma create_or_get_table_created:
  assumes "table_identifier rt cfg = Inr table_id"
    and "load_table ops table_id (catalog w) = (Inl e, c1)"
    and "create_table ops table_id get_event_schema get_partition_spec table_properties c1 =
           (res, c2)"
  shows "create_or_get_table rt ops cfg w =
           (res, w\<lparr>catalog := c2, trace := trace w @ [LoadTable table_id, CreateTable table_id]\<rparr>)"
  using assms by (simp add: create_or_get_table_def call_load_table_def call_create_table_def)

text \<open>
  Claim C6. When \<^verbatim>\<open>load_table\<close> succeeds, \<^verbatim>\<open>create_or_get_table\<close> returns the
  loaded table after that one call, without a create call. When the first load fails,
  the create succeeds and the catalog then serves the created table, two calls of
  \<^verbatim>\<open>create_or_get_table\<close> issue exactly one create call between two loads, and the
  second returns the table the first returned.
\<close>

theorem create_or_get_table_idempotent:
  assumes ident: "table_identifier rt cfg = Inr table_id"
  shows
    "(\<forall>table c'. load_table ops table_id (catalog w) = (Inr table, c') \<longrightarrow>
        create_or_get_table rt ops cfg w =
          (Inr table, w\<lparr>catalog := c', trace := trace w @ [LoadTable table_id]\<rparr>)) \<and>
     (\<forall>e c1 table c2 c3.
        load_table ops table_id (catalog w) = (Inl e, c1) \<and>
        create_table ops table_id get_event_schema get_partition_spec table_properties c1 =
          (Inr table, c2) \<and>
        load_table ops table_id c2 = (Inr table, c3) \<longrightarrow>
        fst (create_or_get_table rt ops cfg w) = Inr table \<and>
        create_or_get_table rt ops cfg (snd (create_or_get_table rt ops cfg w)) =
          (Inr table,
           w\<lparr>catalog := c3,
             trace := trace w @ [LoadTable table_id, CreateTable table_id, LoadTable table_id]\<rparr>))"
proof (intro conjI allI impI)
  fix table c'
  assume "load_table ops table_id (catalog w) = (Inr table, c')"
  with ident show "create_or_get_table rt ops cfg w =
          (Inr table, w\<lparr>catalog := c', trace := trace w @ [LoadTable table_id]\<rparr>)"
    by (rule create_or_get_table_loaded)
next
  fix e c1 table c2 c3
  assume h: "load_table ops table_id (catalog w) = (Inl e, c1) \<and>
        create_table ops table_id get_event_schema get_partition_spec table_properties c1 =
          (Inr table, c2) \<and>
        load_table ops table_id c2 = (Inr table, c3)"
  define w1 where "w1 = w\<lparr>catalog := c2, trace := trace w @ [LoadTable table_id, CreateTable table_id]\<rparr>"
  from h have h1: "load_table ops table_id (catalog w) = (Inl e, c1)"
    and h2: "create_table ops table_id get_event_schema get_partition_spec table_properties c1 =
          (Inr table, c2)"
    by simp_all
  have first: "create_or_get_table rt ops cfg w = (Inr table, w1)"
    unfolding w1_def by (rule create_or_get_table_created [OF ident h1 h2])
  then show "fst (create_or_get_table rt ops cfg w) = Inr table" by simp
  from h have "load_table ops table_id (catalog w1) = (Inr table, c3)"
    by (simp add: w1_def)
  with ident have "create_or_get_table rt ops cfg w1 =
      (Inr table, w1\<lparr>catalog := c3, trace := trace w1 @ [LoadTable table_id]\<rparr>)"
    by (rule create_or_get_table_loaded)
  with first show "create_or_get_table rt ops cfg (snd (create_or_get_table rt ops cfg w)) =
          (Inr table,
           w\<lparr>catalog := c3,
             trace := trace w @ [LoadTable table_id, CreateTable table_id, LoadTable table_id]\<rparr>)"
    by (simp add: w1_def)
qed

lemma test_identifier:
  "table_identifier test_runtime test_config = Inr ''default.conversion_events''"
  by (simp add: table_identifier_def test_config_def py_format_def)

theorem create_or_get_table_idempotent_witness:
  "create_or_get_table test_runtime mem_ops test_config
       (fresh_world [(''default.conversion_events'', [])]) =
     (Inr (''default.conversion_events'', []),
      (fresh_world [(''default.conversion_events'', [])])
        \<lparr>catalog := [(''default.conversion_events'', [])],
          trace := [LoadTable ''default.conversion_events'']\<rparr>) \<and>
   fst (create_or_get_table test_runtime mem_ops test_config (fresh_world [])) =
     Inr (''default.conversion_events'', []) \<and>
   create_or_get_table test_runtime mem_ops test_config
       (snd (create_or_get_table test_runtime mem_ops test_config (fresh_world []))) =
     (Inr (''default.conversion_events'', []),
      (fresh_world [])
        \<lparr>catalog := [(''default.conversion_events'', [])],
          trace := [LoadTable ''default.conversion_events'',
                    CreateTable ''default.conversion_events'',
                    LoadTable ''default.conversion_events'']\<rparr>)"
proof -
  let ?id = "''default.conversion_events''"
  have l1: "load_table mem_ops ?id (catalog (fresh_world [(?id, [])])) =
      (Inr (?id, []), [(?id, [])])"
    by (simp add: mem_ops_def fresh_world_def)
  have l2: "load_table mem_ops ?id (catalog (fresh_world [])) =
        (Inl (LibraryError ''NoSuchTableError''), []) \<and>
      create_table mem_ops ?id get_event_schema get_partition_spec table_properties [] =
        (Inr (?id, []), [(?id, [])]) \<and>
      load_table mem_ops ?id [(?id, [])] = (Inr (?id, []), [(?id, [])])"
    by (simp add: mem_ops_def fresh_world_def)
  have t1: "trace (fresh_world [(?id, [])]) = []" and t2: "trace (fresh_world []) = []"
    by (simp_all add: fresh_world_def)
  note thm1 = create_or_get_table_idempotent [OF test_identifier, of mem_ops "fresh_world [(?id, [])]"]
  note thm2 = create_or_get_table_idempotent [OF test_identifier, of mem_ops "fresh_world []"]
  from thm1 l1 have a: "create_or_get_table test_runtime mem_ops test_config (fresh_world [(?id, [])]) =
      (Inr (?id, []), (fresh_world [(?id, [])])\<lparr>catalog := [(?id, [])],
          trace := trace (fresh_world [(?id, [])]) @ [LoadTable ?id]\<rparr>)"
    by blast
  from thm2 l2 have b: "fst (create_or_get_table test_runtime mem_ops test_config (fresh_world [])) =
        Inr (?id, []) \<and>
      create_or_get_table test_runtime mem_ops test_config
        (snd (create_or_get_table test_runtime mem_ops test_config (fresh_world []))) =
      (Inr (?id, []), (fresh_world [])\<lparr>catalog := [(?id, [])],
          trace := trace (fresh_world []) @ [LoadTable ?id, CreateTable ?id, LoadTable ?id]\<rparr>)"
    by blast
  from a b show ?thesis unfolding t1 t2 by simp
qed

section \<open>Properties of the statistics\<close>

lemma table_stats_no_snapshot:
  assumes "current_snapshot ops table = None"
  shows "table_stats rt ops table_id table =
     Inr [(''table_name'', PStr table_id),
          (''row_count'', PInt 0),
          (''file_count'', PInt 0),
          (''total_size_bytes'', PInt 0),
          (''snapshot_count'', PInt (int (length (snapshots ops table)))),
          (''last_updated'', PNone),
          (''total_size'', PStr (format_2f rt (Finite 0) @ '' B''))]"
  using assms by (simp add: table_stats_def Let_def)

text \<open>
  Claim C8. When the table loads and has no current snapshot, \<^verbatim>\<open>query_table_stats\<close>
  reports \<^verbatim>\<open>row_count\<close>, \<^verbatim>\<open>file_count\<close> and \<^verbatim>\<open>total_size_bytes\<close> as
  zero and \<^verbatim>\<open>last_updated\<close> as \<^verbatim>\<open>None\<close>; when \<^verbatim>\<open>load_table\<close> raises,
  whatever the exception, it returns the empty dictionary and raises nothing.
\<close>

theorem query_table_stats_no_snapshot_or_failure:
  assumes ident: "table_identifier rt cfg = Inr table_id"
  shows
    "(\<forall>table c'. load_table ops table_id (catalog w) = (Inr table, c') \<and>
                 current_snapshot ops table = None \<longrightarrow>
        (\<exists>stats. fst (query_table_stats rt ops cfg w) = Inr stats \<and>
           map_of stats ''row_count'' = Some (PInt 0) \<and>
           map_of stats ''file_count'' = Some (PInt 0) \<and>
           map_of stats ''total_size_bytes'' = Some (PInt 0) \<and>
           map_of stats ''last_updated'' = Some PNone)) \<and>
     (\<forall>e c'. load_table ops table_id (catalog w) = (Inl e, c') \<longrightarrow>
        fst (query_table_stats rt ops cfg w) = Inr [])"
proof (intro conjI allI impI)
  fix table c'
  assume h: "load_table ops table_id (catalog w) = (Inr table, c') \<and>
             current_snapshot ops table = None"
  define stats where "stats =
         [(''table_name'', PStr table_id),
          (''row_count'', PInt 0),
          (''file_count'', PInt 0),
          (''total_size_bytes'', PInt 0),
          (''snapshot_count'', PInt (int (length (snapshots ops table)))),
          (''last_updated'', PNone),
          (''total_size'', PStr (format_2f rt (Finite 0) @ '' B''))]"
  from h have "table_stats rt ops table_id table = Inr stats"
    unfolding stats_def by (simp add: table_stats_no_snapshot)
  with h ident have "fst (query_table_stats rt ops cfg w) = Inr stats"
    by (simp add: query_table_stats_def call_load_table_def)
  moreover have "map_of stats ''row_count'' = Some (PInt 0)"
    "map_of stats ''file_count'' = Some (PInt 0)"
    "map_of stats ''total_size_bytes'' = Some (PInt 0)"
    "map_of stats ''last_updated'' = Some PNone"
    by (simp_all add: stats_def)
  ultimately show "\<exists>stats. fst (query_table_stats rt ops cfg w) = Inr stats \<and>
           map_of stats ''row_count'' = Some (PInt 0) \<and>
           map_of stats ''file_count'' = Some (PInt 0) \<and>
           map_of stats ''total_size_bytes'' = Some (PInt 0) \<and>
           map_of stats ''last_updated'' = Some PNone"
    by blast
next
  fix e c'
  assume "load_table ops table_id (catalog w) = (Inl e, c')"
  with ident show "fst (query_table_stats rt ops cfg w) = Inr []"
    by (simp add: query_table_stats_def call_load_table_def)
qed

theorem query_table_stats_no_snapshot_or_failure_witness:
  "(\<exists>stats. fst (query_table_stats test_runtime mem_ops test_config
                   (fresh_world [(''default.conversion_events'', [])])) = Inr stats \<and>
      map_of stats ''row_count'' = Some (PInt 0) \<and>
      map_of stats ''file_count'' = Some (PInt 0) \<and>
      map_of stats ''total_size_bytes'' = Some (PInt 0) \<and>
      map_of stats ''last_updated'' = Some PNone) \<and>
   fst (query_table_stats test_runtime mem_ops test_config (fresh_world [])) = Inr []"
proof -
  let ?id = "''default.conversion_events''"
  have l1: "load_table mem_ops ?id (catalog (fresh_world [(?id, [])])) =
        (Inr (?id, []), [(?id, [])]) \<and>
      current_snapshot mem_ops (?id, []) = None"
    by (simp add: mem_ops_def fresh_world_def)
  have l2: "load_table mem_ops ?id (catalog (fresh_world [])) =
        (Inl (LibraryError ''NoSuchTableError''), [])"
    by (simp add: mem_ops_def fresh_world_def)
  note thm1 = query_table_stats_no_snapshot_or_failure
                [OF test_identifier, of mem_ops "fresh_world [(?id, [])]"]
  note thm2 = query_table_stats_no_snapshot_or_failure
                [OF test_identifier, of mem_ops "fresh_world []"]
  from thm1 l1 have a: "\<exists>stats. fst (query_table_stats test_runtime mem_ops test_config
                   (fresh_world [(?id, [])])) = Inr stats \<and>
      map_of stats ''row_count'' = Some (PInt 0) \<and>
      map_of stats ''file_count'' = Some (PInt 0) \<and>
      map_of stats ''total_size_bytes'' = Some (PInt 0) \<and>
      map_of stats ''last_updated'' = Some PNone"
    by blast
  from thm2 l2 have b: "fst (query_table_stats test_runtime mem_ops test_config (fresh_world [])) = Inr []"
    by blast
  from a b show ?thesis by blast
qed

section \<open>Properties of the bulk load\<close>

subsection \<open>The batch loop\<close>







subsection \<open>The dry run\<close>

lemma alloc_records_frame:
  "alloc_records es w = (rs, w') \<Longrightarrow>
     length rs = length es \<and> catalog w' = catalog w \<and> trace w' = trace w"
proof (induction es arbitrary: w rs w')
  case Nil
  then show ?case by simp
next
  case (Cons e es)
  define w1 where "w1 = w\<lparr>heap := (heap w)(next_ref w := e), next_ref := Suc (next_ref w)\<rparr>"
  obtain rs1 w2 where a: "alloc_records es w1 = (rs1, w2)" by (metis surj_pair)
  with Cons.prems have "rs = next_ref w # rs1" "w' = w2"
    by (simp_all add: w1_def)
  with Cons.IH [OF a] show ?case by (simp add: w1_def)
qed

lemma validate_events_frame:
  assumes "validate_events rt events org w = (res, w')"
  shows "catalog w' = catalog w \<and> trace w' = trace w"
  using validate_loop_frame [of rt org events "[]" w res w'] assms
  by (simp add: validate_events_def)

lemma validate_events_result:
  assumes "validate_events rt events org w = (Inr validated, w')"
  shows "validated = events"
  using validate_loop_result [of rt org events "[]" w validated w'] assms
  by (simp add: validate_events_def)

lemma bulk_load_dry_run_unfold:
  "bulk_load rt ops cfg input_file org file_format True w =
     (case read_records rt input_file file_format of
        Inl e \<Rightarrow> (Inl e, w)
      | Inr records \<Rightarrow>
          (case validate_events rt (fst (alloc_records records w)) org
                  (snd (alloc_records records w)) of
             (Inl e, w1) \<Rightarrow> (Inl e, w1)
           | (Inr validated_events, w1) \<Rightarrow>
               (case validated_events of
                  [] \<Rightarrow> (Inl IndexError, w1)
                | _ # _ \<Rightarrow> (Inr (length validated_events), w1))))"
  by (simp add: bulk_load_def split: sum.splits prod.splits)

text \<open>
  Claim C9. On the empty record set the dry run raises \<^verbatim>\<open>IndexError\<close> at
  \<^verbatim>\<open>validated_events[0]\<close> instead of returning \<open>0\<close>; whenever the dry run
  returns a count, the record set read was not empty and the count is its length.
\<close>

theorem bulk_load_dry_run_empty:
  "(read_records rt input_file file_format = Inr [] \<longrightarrow>
      fst (bulk_load rt ops cfg input_file organization_id file_format True w) =
        Inl IndexError) \<and>
   (\<forall>n. fst (bulk_load rt ops cfg input_file organization_id file_format True w) = Inr n \<longrightarrow>
      (\<exists>records. read_records rt input_file file_format = Inr records \<and>
                 records \<noteq> [] \<and> n = length records))"
proof (intro conjI allI impI)
  assume "read_records rt input_file file_format = Inr []"
  then show "fst (bulk_load rt ops cfg input_file organization_id file_format True w) =
        Inl IndexError"
    by (simp add: bulk_load_dry_run_unfold validate_events_def)
next
  fix n
  assume ok: "fst (bulk_load rt ops cfg input_file organization_id file_format True w) = Inr n"
  then obtain records where rr: "read_records rt input_file file_format = Inr records"
    by (cases "read_records rt input_file file_format")
       (simp_all add: bulk_load_dry_run_unfold)
  obtain events w0 where al: "alloc_records records w = (events, w0)" by (metis surj_pair)
  obtain res w1 where ve: "validate_events rt events organization_id w0 = (res, w1)"
    by (metis surj_pair)
  from ok rr al ve obtain validated where res: "res = Inr validated"
    by (cases res) (simp_all add: bulk_load_dry_run_unfold)
  with ve have "validated = events" by (simp add: validate_events_result)
  moreover from al have "length events = length records" by (simp add: alloc_records_frame)
  moreover from ok rr al ve res have "validated \<noteq> [] \<and> n = length validated"
    by (cases validated) (simp_all add: bulk_load_dry_run_unfold)
  ultimately have "records \<noteq> [] \<and> n = length records" by auto
  with rr show "\<exists>records. read_records rt input_file file_format = Inr records \<and>
                 records \<noteq> [] \<and> n = length records"
    by blast
qed

text \<open>
  Claim C5, as the code has it. A dry run never calls the catalog: the catalog and the
  trace of catalog calls are as before, whatever the input. When the input has \<open>N\<close>
  records, \<open>N > 0\<close>, and validation returns, the dry run returns \<open>N\<close>.
\<close>

theorem bulk_load_dry_run:
  "catalog (snd (bulk_load rt ops cfg input_file organization_id file_format True w)) =
     catalog w \<and>
   trace (snd (bulk_load rt ops cfg input_file organization_id file_format True w)) =
     trace w \<and>
   (\<forall>records validated.
      read_records rt input_file file_format = Inr records \<and> records \<noteq> [] \<and>
      fst (validate_events rt (fst (alloc_records records w)) organization_id
             (snd (alloc_records records w))) = Inr validated \<longrightarrow>
      fst (bulk_load rt ops cfg input_file organization_id file_format True w) =
        Inr (length records))"
proof -
  have frame: "catalog (snd (bulk_load rt ops cfg input_file organization_id file_format True w)) =
     catalog w \<and>
   trace (snd (bulk_load rt ops cfg input_file organization_id file_format True w)) = trace w"
  proof (cases "read_records rt input_file file_format")
    case (Inl e)
    then show ?thesis by (simp add: bulk_load_dry_run_unfold)
  next
    case (Inr records)
    obtain events w0 where al: "alloc_records records w = (events, w0)" by (metis surj_pair)
    obtain res w1 where ve: "validate_events rt events organization_id w0 = (res, w1)"
      by (metis surj_pair)
    have "snd (bulk_load rt ops cfg input_file organization_id file_format True w) = w1"
      using Inr al ve
      by (simp add: bulk_load_dry_run_unfold split: sum.splits list.splits)
    with alloc_records_frame [OF al] validate_events_frame [OF ve]
    show ?thesis by simp
  qed
  have count: "fst (bulk_load rt ops cfg input_file organization_id file_format True w) =
        Inr (length records)"
    if h: "read_records rt input_file file_format = Inr records \<and> records \<noteq> [] \<and>
      fst (validate_events rt (fst (alloc_records records w)) organization_id
             (snd (alloc_records records w))) = Inr validated"
    for records validated
  proof -
    obtain events w0 where al: "alloc_records records w = (events, w0)" by (metis surj_pair)
    obtain w1 where ve: "validate_events rt events organization_id w0 = (Inr validated, w1)"
      using h al by (metis fst_conv snd_conv surj_pair)
    then have "validated = events" by (rule validate_events_result)
    moreover from al have "length events = length records" by (simp add: alloc_records_frame)
    ultimately have "length validated = length records" "validated \<noteq> []"
      using h by auto
    with h al ve show ?thesis
      by (cases validated) (simp_all add: bulk_load_dry_run_unfold)
  qed
  from frame count show ?thesis by blast
qed

lemma test_read:
  "read_records test_runtime ''events.csv'' ''auto'' = Inr test_records"
  "read_records test_runtime ''empty.csv'' ''auto'' = Inr []"
  "read_records test_runtime ''bad.json'' ''auto'' = Inr [[''event_value'' \<mapsto> PStr ''abc'']]"
  by (simp_all add: test_runtime_def)

lemma test_alloc:
  "fst (alloc_records test_records (fresh_world c)) = [0, 1, 2]"
  by (simp add: test_records_def fresh_world_def split: prod.splits)

lemma test_validate:
  "fst (validate_events test_runtime [0, 1, 2] ''acme''
          (snd (alloc_records test_records (fresh_world c)))) = Inr [0, 1, 2]"
  by (simp add: eval_defs test_records_def fresh_world_def split: prod.splits)

lemma test_dry_run:
  "fst (bulk_load test_runtime mem_ops test_config ''events.csv'' ''acme'' ''auto'' True
          (fresh_world [])) = Inr 3"
proof -
  obtain w1 where "validate_events test_runtime [0, 1, 2] ''acme''
          (snd (alloc_records test_records (fresh_world []))) = (Inr [0, 1, 2], w1)"
    using test_validate [of "[]"] by (metis fst_conv surj_pair)
  then show ?thesis
    by (simp add: bulk_load_dry_run_unfold test_read test_alloc)
qed

theorem bulk_load_dry_run_empty_witness:
  "fst (bulk_load test_runtime mem_ops test_config ''empty.csv'' ''acme'' ''auto'' True
          (fresh_world [])) = Inl IndexError \<and>
   fst (bulk_load test_runtime mem_ops test_config ''events.csv'' ''acme'' ''auto'' True
          (fresh_world [])) = Inr 3 \<and>
   (\<exists>records. read_records test_runtime ''events.csv'' ''auto'' = Inr records \<and>
              records \<noteq> [] \<and> 3 = length records)"
proof -
  note thm1 = bulk_load_dry_run_empty [of test_runtime "''empty.csv''" "''auto''" mem_ops
      test_config "''acme''" "fresh_world []"]
  note thm2 = bulk_load_dry_run_empty [of test_runtime "''events.csv''" "''auto''" mem_ops
      test_config "''acme''" "fresh_world []"]
  from thm1 test_read(2) have a: "fst (bulk_load test_runtime mem_ops test_config ''empty.csv''
      ''acme'' ''auto'' True (fresh_world [])) = Inl IndexError"
    by blast
  from thm2 test_dry_run have b: "\<exists>records. read_records test_runtime ''events.csv'' ''auto'' = Inr records \<and>
              records \<noteq> [] \<and> 3 = length records"
    by blast
  from a b test_dry_run show ?thesis by blast
qed

theorem bulk_load_dry_run_witness:
  "fst (bulk_load test_runtime mem_ops test_config ''events.csv'' ''acme'' ''auto'' True
          (fresh_world [])) = Inr 3 \<and>
   catalog (snd (bulk_load test_runtime mem_ops test_config ''events.csv'' ''acme'' ''auto'' True
          (fresh_world []))) = [] \<and>
   trace (snd (bulk_load test_runtime mem_ops test_config ''events.csv'' ''acme'' ''auto'' True
          (fresh_world []))) = []"
proof -
  note inst = bulk_load_dry_run [of test_runtime mem_ops test_config "''events.csv''" "''acme''"
      "''auto''" "fresh_world []"]
  have h: "read_records test_runtime ''events.csv'' ''auto'' = Inr test_records \<and>
      test_records \<noteq> [] \<and>
      fst (validate_events test_runtime (fst (alloc_records test_records (fresh_world []))) ''acme''
             (snd (alloc_records test_records (fresh_world [])))) = Inr [0, 1, 2]"
  proof (intro conjI)
    show "read_records test_runtime ''events.csv'' ''auto'' = Inr test_records"
      by (rule test_read(1))
    show "test_records \<noteq> []" by (simp add: test_records_def)
    show "fst (validate_events test_runtime (fst (alloc_records test_records (fresh_world []))) ''acme''
             (snd (alloc_records test_records (fresh_world [])))) = Inr [0, 1, 2]"
      unfolding test_alloc by (rule test_validate)
  qed
  have len: "length test_records = 3" by (simp add: test_records_def)
  have c: "catalog (fresh_world []) = []" "trace (fresh_world []) = ([] :: mem_table call list)"
    by (simp_all add: fresh_world_def)
  from inst h have "fst (bulk_load test_runtime mem_ops test_config ''events.csv'' ''acme'' ''auto''
      True (fresh_world [])) = Inr (length test_records)"
    by blast
  with inst len c show ?thesis by simp
qed

text \<open>
  A non-empty input does not suffice for the count: the JSON file \<^verbatim>\<open>bad.json\<close> holds
  one record whose \<^verbatim>\<open>event_value\<close> is the string \<^verbatim>\<open>abc\<close>, and the dry run
  raises the \<^verbatim>\<open>ValueError\<close> of \<^verbatim>\<open>float('abc')\<close> instead of returning \<open>1\<close>.
\<close>

theorem bulk_load_dry_run_invalid_counterexample:
  "read_records test_runtime ''bad.json'' ''auto'' = Inr [[''event_value'' \<mapsto> PStr ''abc'']] \<and>
   fst (bulk_load test_runtime mem_ops test_config ''bad.json'' ''acme'' ''auto'' True
          (fresh_world [])) =
     Inl (ValueError (''could not convert string to float: '' @ [CHR 0x27] @ ''abc'' @ [CHR 0x27]))"
  by (simp add: bulk_load_dry_run_unfold test_read eval_defs fresh_world_def)

subsection \<open>The batches committed\<close>











end
